theory Spec2Isabelle
  imports Complex_Main
begin

section \<open>JavaScript values\<close>

text \<open>
  A JavaScript number is modelled as a real number. NaN and the infinities are not real
  numbers, and the rounding of binary floating point is not modelled: where the source
  would go on computing with NaN, with an infinity or with a value that is not a number
  at all, the model stops with the outcome \<open>NonReal\<close>.

  Values whose TypeScript type is \<^verbatim>\<open>unknown\<close> (the members of \<^verbatim>\<open>signals\<close> and of
  \<^verbatim>\<open>details\<close>) are values of \<open>jsval\<close>; an object is the list of its members.
\<close>

datatype jsval =
    JUndefined
  | JNull
  | JBool bool
  | JNum real
  | JStr string
  | JArr "jsval list"
  | JObj "(string \<times> jsval) list"

text \<open>What a \<^verbatim>\<open>throw\<close> carries: a \<^verbatim>\<open>TypeError\<close> of the engine or an \<^verbatim>\<open>Error\<close>, with its message.\<close>

datatype exn = TypeError string | Error string

datatype fault = Thrown exn | NonReal

text \<open>\<^verbatim>\<open>e instanceof Error ? e.message : String(e)\<close>: both kinds are instances of \<^verbatim>\<open>Error\<close>.\<close>

fun errorMessage :: "exn \<Rightarrow> string" where
  "errorMessage (TypeError m) = m"
| "errorMessage (Error m) = m"

text \<open>The truth value of a value in a condition (\<^verbatim>\<open>if (v)\<close>, \<^verbatim>\<open>!v\<close>).\<close>

fun truthy :: "jsval \<Rightarrow> bool" where
  "truthy JUndefined = False"
| "truthy JNull = False"
| "truthy (JBool b) = b"
| "truthy (JNum x) = (x \<noteq> 0)"
| "truthy (JStr s) = (s \<noteq> [])"
| "truthy (JArr xs) = True"
| "truthy (JObj kvs) = True"

definition quoted :: "string \<Rightarrow> string" where
  "quoted s = CHR 0x27 # s @ [CHR 0x27]"

text \<open>
  \<^verbatim>\<open>v.k\<close> and \<^verbatim>\<open>v[k]\<close>. Reading a member of \<^verbatim>\<open>undefined\<close> or \<^verbatim>\<open>null\<close> throws a
  \<^verbatim>\<open>TypeError\<close>. A member that an object does not have reads as \<^verbatim>\<open>undefined\<close>, and so do
  the members this program reads (\<^verbatim>\<open>message\<close>, \<^verbatim>\<open>signature\<close>, \<^verbatim>\<open>challenger\<close>, \<^verbatim>\<open>KnowLoc\<close>,
  \<^verbatim>\<open>verified\<close> and the three source names) on a string, a number, a boolean or an array.
\<close>

fun readMember :: "jsval \<Rightarrow> string \<Rightarrow> jsval" where
  "readMember (JObj kvs) k = (case map_of kvs k of None \<Rightarrow> JUndefined | Some v \<Rightarrow> v)"
| "readMember v k = JUndefined"

definition getProp :: "jsval \<Rightarrow> string \<Rightarrow> exn + jsval" where
  "getProp v k =
     (if v = JUndefined then
        Inl (TypeError (''Cannot read properties of undefined (reading '' @ quoted k @ '')''))
      else if v = JNull then
        Inl (TypeError (''Cannot read properties of null (reading '' @ quoted k @ '')''))
      else Inr (readMember v k))"

text \<open>
  \<^verbatim>\<open>String.prototype.toLowerCase\<close> on the letters A to Z; the identities compared are
  hexadecimal addresses.
\<close>

definition lowerChar :: "char \<Rightarrow> char" where
  "lowerChar c =
     (case map_of (zip ''ABCDEFGHIJKLMNOPQRSTUVWXYZ'' ''abcdefghijklmnopqrstuvwxyz'') c of
        None \<Rightarrow> c
      | Some l \<Rightarrow> l)"

definition toLowerCase :: "string \<Rightarrow> string" where
  "toLowerCase s = map lowerChar s"

text \<open>\<^verbatim>\<open>v.toLowerCase()\<close> on a value that need not be a string.\<close>

fun callToLowerCase :: "jsval \<Rightarrow> exn + string" where
  "callToLowerCase (JStr s) = Inr (toLowerCase s)"
| "callToLowerCase JUndefined =
     Inl (TypeError ''Cannot read properties of undefined (reading 'toLowerCase')'')"
| "callToLowerCase JNull =
     Inl (TypeError ''Cannot read properties of null (reading 'toLowerCase')'')"
| "callToLowerCase v = Inl (TypeError ''toLowerCase is not a function'')"

text \<open>\<^verbatim>\<open>xs[i]\<close> on an array of numbers: an index past the end reads \<^verbatim>\<open>undefined\<close>.\<close>

definition elemAt :: "'a list \<Rightarrow> nat \<Rightarrow> 'a option" where
  "elemAt xs i = (if i < length xs then Some (xs ! i) else None)"

section \<open>Stamps, claims and results\<close>

text \<open>
  The types of the SDK, as this plugin reads and builds them. In a time window
  \<^verbatim>\<open>{ start: number; end: number }\<close> the field \<^verbatim>\<open>end\<close> is written \<open>finish\<close>.
\<close>

record Interval =
  start :: real
  finish :: real

text \<open>
  A location is a string identifier, or an object: its \<^verbatim>\<open>type\<close> tag and its \<^verbatim>\<open>coordinates\<close>
  member, absent or the array of numbers that the casts \<^verbatim>\<open>as number[]\<close> take it for. The
  types are erased when the program runs, and two more values reach the reads of a location
  in \<^verbatim>\<open>verify.ts\<close> and \<^verbatim>\<open>evaluate.ts\<close>, which throw on them: \<^verbatim>\<open>null\<close> in the place of the
  location (\<open>LocationNull\<close>: what JSON has for an absent value, and falsy, as the test
  \<^verbatim>\<open>!stamp.location\<close> provides for), and an object whose \<^verbatim>\<open>coordinates\<close> member is
  present and is \<^verbatim>\<open>null\<close> or \<^verbatim>\<open>undefined\<close> (\<open>LocationNullCoordinates\<close>, with the \<^verbatim>\<open>type\<close>
  tag and which of the two the member is).
\<close>

datatype Nullish = NullValue | UndefinedValue

fun nullishName :: "Nullish \<Rightarrow> string" where
  "nullishName NullValue = ''null''"
| "nullishName UndefinedValue = ''undefined''"

datatype LocationData =
    LocationText string
  | LocationObject string "real list option"
  | LocationNull
  | LocationNullCoordinates string Nullish

record Subject =
  scheme :: string
  subjectValue :: string

text \<open>A signature record; \<^verbatim>\<open>sig.value\<close> is \<open>sigValue\<close>, \<^verbatim>\<open>sig.signer.value\<close> is \<open>subjectValue\<close>.\<close>

record Signature =
  signer :: Subject
  algorithm :: string
  sigValue :: string
  timestamp :: int

text \<open>
  \<^verbatim>\<open>LocationStamp\<close>, and \<^verbatim>\<open>UnsignedLocationStamp\<close> when \<open>signatures\<close> is absent. Every
  member holds a value of its declared type. The members whose presence the source tests
  (\<^verbatim>\<open>!stamp.location\<close>, \<^verbatim>\<open>!stamp.temporalFootprint\<close>, \<^verbatim>\<open>stamp.signatures &&\<close>) may also be
  absent: \<open>None\<close> is the missing member, \<^verbatim>\<open>undefined\<close>. The value \<^verbatim>\<open>null\<close>, which none of
  the declared types has, is modelled for \<open>location\<close> only.
\<close>

record LocationStamp =
  lpVersion :: string
  locationType :: string
  location :: "LocationData option"
  srs :: string
  temporalFootprint :: "Interval option"
  plugin :: string
  pluginVersion :: string
  signals :: "(string \<times> jsval) list"
  signatures :: "Signature list option"

text \<open>\<^verbatim>\<open>stamp.signals.k\<close>.\<close>

definition signal :: "LocationStamp \<Rightarrow> string \<Rightarrow> jsval" where
  "signal stamp k = readMember (JObj (signals stamp)) k"

text \<open>
  The members of a \<^verbatim>\<open>LocationClaim\<close> that the evaluator reads; \<^verbatim>\<open>claim.location\<close> is
  written \<open>claimLocation\<close>.
\<close>

record LocationClaim =
  claimLocation :: "LocationData option"
  radius :: real
  time :: Interval

text \<open>
  The three flags and the \<^verbatim>\<open>details\<close> of the verifier while it runs, and its result,
  which adds \<open>valid\<close>.
\<close>

record Checks =
  signaturesValid :: bool
  structureValid :: bool
  signalsConsistent :: bool
  details :: "string \<rightharpoonup> jsval"

record StampVerificationResult = Checks +
  valid :: bool

text \<open>\<^verbatim>\<open>CredibilityVector\<close>; its \<^verbatim>\<open>details\<close> are written \<open>evalDetails\<close>.\<close>

record CredibilityVector =
  supportsClaim :: bool
  score :: real
  spatial :: real
  temporal :: real
  evalDetails :: "string \<rightharpoonup> jsval"

section \<open>Evaluation (evaluate.ts)\<close>

definition EARTH_RADIUS_M :: real where
  "EARTH_RADIUS_M = 6371000"

definition toRad :: "real \<Rightarrow> real" where
  "toRad deg = (deg * pi) / 180"

text \<open>
  \<^verbatim>\<open>haversineDistance\<close>. \<^verbatim>\<open>Math.sqrt\<close> of a negative number and \<^verbatim>\<open>Math.asin\<close> of a number
  above 1 are NaN.
\<close>

definition haversineDistance :: "real \<Rightarrow> real \<Rightarrow> real \<Rightarrow> real \<Rightarrow> fault + real" where
  "haversineDistance lat1 lon1 lat2 lon2 =
     (let dLat = toRad (lat2 - lat1);
          dLon = toRad (lon2 - lon1);
          a = (sin (dLat / 2))\<^sup>2 + cos (toRad lat1) * cos (toRad lat2) * (sin (dLon / 2))\<^sup>2
      in if 0 \<le> a \<and> a \<le> 1 then Inr (2 * EARTH_RADIUS_M * arcsin (sqrt a)) else Inl NonReal)"

text \<open>\<^verbatim>\<open>temporalOverlap\<close>.\<close>

definition temporalOverlap :: "Interval \<Rightarrow> Interval \<Rightarrow> real" where
  "temporalOverlap a b =
     (let overlapStart = max (start a) (start b);
          overlapEnd = min (finish a) (finish b)
      in if overlapEnd \<le> overlapStart then 0
         else (let overlap = overlapEnd - overlapStart;
                   shorter = min (finish a - start a) (finish b - start b)
               in if shorter > 0 then overlap / shorter else 0))"

text \<open>
  The base spatial score (lines 109 to 114), as a function of the distance and of the
  effective radius. A division by 0 is written out: \<^verbatim>\<open>distance / 0\<close> is NaN or an infinity,
  and \<^verbatim>\<open>Math.max(0, 1 - Infinity)\<close> is 0.
\<close>

definition baseSpatial :: "real \<Rightarrow> real \<Rightarrow> fault + real" where
  "baseSpatial distance effectiveRadius =
     (if distance \<le> effectiveRadius then
        (if effectiveRadius = 0 then Inl NonReal
         else Inr (1 - distance / effectiveRadius))
      else
        (if effectiveRadius * 3 = 0 then Inr 0
         else Inr (max 0 (1 - distance / (effectiveRadius * 3)))))"

text \<open>
  The loop over the three named sources: how many are present (\<^verbatim>\<open>!== undefined\<close>) and how
  many of those are \<^verbatim>\<open>true\<close>. The result is \<open>(ipSourcesAgreed, ipSourcesTotal)\<close>.
\<close>

definition countSource :: "jsval \<Rightarrow> string \<Rightarrow> nat \<times> nat \<Rightarrow> nat \<times> nat" where
  "countSource consolidated key c =
     (case c of (ipSourcesAgreed, ipSourcesTotal) \<Rightarrow>
        if readMember consolidated key \<noteq> JUndefined then
          (if readMember consolidated key = JBool True then ipSourcesAgreed + 1 else ipSourcesAgreed,
           ipSourcesTotal + 1)
        else (ipSourcesAgreed, ipSourcesTotal))"

definition ipSources :: "jsval \<Rightarrow> nat \<times> nat" where
  "ipSources consolidated =
     fold (countSource consolidated) [''ipapi.co'', ''ipregistry'', ''maxmind''] (0, 0)"

text \<open>
  The multi-source bonuses (lines 117 to 151) on the spatial score and on \<^verbatim>\<open>details\<close>.
  \<open>consolidated\<close> is tested for truth first, so its members are read without a throw.
\<close>

definition applyBonuses ::
  "jsval \<Rightarrow> real \<times> (string \<rightharpoonup> jsval) \<Rightarrow> real \<times> (string \<rightharpoonup> jsval)" where
  "applyBonuses consolidated sd =
     (if truthy consolidated then
        (let (ipSourcesAgreed, ipSourcesTotal) = ipSources consolidated;
             sd1 = (if ipSourcesTotal > 0 then
                      (let ipAgreementRatio = real ipSourcesAgreed / real ipSourcesTotal
                       in (min 1 (fst sd + ipAgreementRatio * (1 / 10)),
                           (snd sd)(''ipSourcesAgreed'' \<mapsto> JNum (real ipSourcesAgreed),
                                    ''ipSourcesTotal'' \<mapsto> JNum (real ipSourcesTotal))))
                    else sd);
             sd2 = (if readMember consolidated ''KnowLoc'' = JBool True then
                      (min 1 (fst sd1 + 5 / 100), (snd sd1)(''knowLocVerified'' \<mapsto> JBool True))
                    else sd1);
             sd3 = (if readMember consolidated ''verified'' = JBool True then
                      (min 1 (fst sd2 + 5 / 100), (snd sd2)(''consolidatedVerified'' \<mapsto> JBool True))
                    else sd2)
         in sd3)
      else sd)"

text \<open>
  The coordinates of a point-shaped location: of an object whose \<^verbatim>\<open>coordinates\<close> member is
  an array.
\<close>

fun coordinatesOf :: "LocationData option \<Rightarrow> real list option" where
  "coordinatesOf (Some (LocationObject t (Some coords))) = Some coords"
| "coordinatesOf l = None"

text \<open>
  \<^verbatim>\<open>typeof loc === 'object' && 'coordinates' in loc\<close>, and then \<^verbatim>\<open>loc.coordinates\<close> and
  \<^verbatim>\<open>coords[0]\<close>, as both \<^verbatim>\<open>verify.ts\<close> (lines 116 to 119) and \<^verbatim>\<open>evaluate.ts\<close> (lines 64 to
  67 and 82 to 85) have them: the coordinates when the test holds, \<open>None\<close> when it does not.
  \<^verbatim>\<open>typeof null\<close> is \<^verbatim>\<open>'object'\<close>, so the operator \<^verbatim>\<open>in\<close> is applied to \<^verbatim>\<open>null\<close> and throws;
  a \<^verbatim>\<open>coordinates\<close> member that is \<^verbatim>\<open>null\<close> or \<^verbatim>\<open>undefined\<close> passes the test, and
  \<^verbatim>\<open>coords[0]\<close> throws.
\<close>

fun coordinatesMember :: "LocationData option \<Rightarrow> exn + real list option" where
  "coordinatesMember None = Inr None"
| "coordinatesMember (Some (LocationText s)) = Inr None"
| "coordinatesMember (Some (LocationObject t c)) = Inr c"
| "coordinatesMember (Some LocationNull) =
     Inl (TypeError ''Cannot use 'in' operator to search for 'coordinates' in null'')"
| "coordinatesMember (Some (LocationNullCoordinates t n)) =
     Inl (TypeError (''Cannot read properties of '' @ nullishName n @ '' (reading '0')''))"

text \<open>\<^verbatim>\<open>(stamp.signals.knowLocUncertaintyKm as number | undefined) ?? 50\<close>.\<close>

fun uncertaintyKm :: "jsval \<Rightarrow> fault + real" where
  "uncertaintyKm JUndefined = Inr 50"
| "uncertaintyKm JNull = Inr 50"
| "uncertaintyKm (JNum x) = Inr x"
| "uncertaintyKm v = Inl NonReal"

definition errorVector :: "string \<Rightarrow> CredibilityVector" where
  "errorVector msg =
     \<lparr>supportsClaim = False, score = 0, spatial = 0, temporal = 0,
      evalDetails = [''error'' \<mapsto> JStr msg]\<rparr>"

text \<open>The penalty of lines 158 to 162.\<close>

definition challengePenalty :: "LocationStamp \<Rightarrow> real" where
  "challengePenalty stamp =
     (if signal stamp ''challengeSucceeded'' = JBool False then 3 / 10 else 0)"

text \<open>
  Spatial scoring and the bonuses (lines 97 to 151): the spatial score and the \<^verbatim>\<open>details\<close>
  so far. A coordinate that the array does not have is \<^verbatim>\<open>undefined\<close>, and the distance
  is then NaN.
\<close>

definition spatialScoring ::
  "LocationStamp \<Rightarrow> LocationClaim \<Rightarrow> real list \<Rightarrow> real list
     \<Rightarrow> fault + real \<times> (string \<rightharpoonup> jsval)" where
  "spatialScoring stamp claim scoords ccoords =
     (case (elemAt scoords 0, elemAt scoords 1, elemAt ccoords 0, elemAt ccoords 1) of
        (Some stampLon, Some stampLat, Some claimLon, Some claimLat) \<Rightarrow>
          (case haversineDistance stampLat stampLon claimLat claimLon of
             Inl f \<Rightarrow> Inl f
           | Inr distance \<Rightarrow>
          (case uncertaintyKm (signal stamp ''knowLocUncertaintyKm'') of
             Inl f \<Rightarrow> Inl f
           | Inr knowLocUncertaintyKm \<Rightarrow>
               (let uncertaintyMeters = knowLocUncertaintyKm * 1000;
                    effectiveRadius = radius claim + uncertaintyMeters;
                    details0 = [''distanceMeters'' \<mapsto> JNum (of_int (round distance)),
                                ''effectiveRadiusMeters'' \<mapsto> JNum effectiveRadius,
                                ''knowLocUncertaintyKm'' \<mapsto> JNum knowLocUncertaintyKm]
                in (case baseSpatial distance effectiveRadius of
                      Inl f \<Rightarrow> Inl f
                    | Inr spatial0 \<Rightarrow>
                        Inr (applyBonuses (signal stamp ''consolidatedResult'')
                               (spatial0, details0))))))
      | _ \<Rightarrow> Inl NonReal)"

text \<open>
  Temporal scoring, the penalty, the combined score and the verdict (lines 153 to 170),
  from the spatial score and the \<^verbatim>\<open>details\<close> so far. An absent \<^verbatim>\<open>temporalFootprint\<close>
  makes \<^verbatim>\<open>temporalOverlap\<close> throw where it reads \<^verbatim>\<open>a.start\<close>.
\<close>

definition combineScores ::
  "LocationStamp \<Rightarrow> LocationClaim \<Rightarrow> real \<times> (string \<rightharpoonup> jsval)
     \<Rightarrow> fault + CredibilityVector" where
  "combineScores stamp claim sd =
     (case temporalFootprint stamp of
        None \<Rightarrow>
          Inl (Thrown (TypeError ''Cannot read properties of undefined (reading 'start')''))
      | Some footprint \<Rightarrow>
          (let spatial1 = fst sd;
               details1 = snd sd;
               temporal1 = temporalOverlap footprint (time claim);
               details2 = details1(''temporalOverlap'' \<mapsto> JNum temporal1);
               details3 = (if signal stamp ''challengeSucceeded'' = JBool False
                           then details2(''challengeFailedPenalty''
                                           \<mapsto> JNum (challengePenalty stamp))
                           else details2);
               rawScore = spatial1 * (65 / 100) + temporal1 * (35 / 100)
                            - challengePenalty stamp;
               score1 = max 0 (min 1 rawScore);
               supportsClaim1 = (score1 > 3 / 10 \<and> spatial1 > 1 / 10 \<and> temporal1 > 0)
           in Inr \<lparr>supportsClaim = supportsClaim1, score = score1, spatial = spatial1,
                    temporal = temporal1, evalDetails = details3\<rparr>))"

text \<open>
  \<^verbatim>\<open>evaluateWitnessChainStamp\<close>: the two reads of a location, each with its early return,
  then the two parts above. The function is \<^verbatim>\<open>async\<close>: \<open>Thrown\<close> is the rejection of its
  promise. Once the outcome is \<open>NonReal\<close> the model says nothing of what the source does
  next.
\<close>

definition evaluateWitnessChainStamp ::
  "LocationStamp \<Rightarrow> LocationClaim \<Rightarrow> fault + CredibilityVector" where
  "evaluateWitnessChainStamp stamp claim =
     (case coordinatesMember (location stamp) of
        Inl e \<Rightarrow> Inl (Thrown e)
      | Inr None \<Rightarrow> Inr (errorVector ''Cannot extract coordinates from stamp location'')
      | Inr (Some scoords) \<Rightarrow>
     (case coordinatesMember (claimLocation claim) of
        Inl e \<Rightarrow> Inl (Thrown e)
      | Inr None \<Rightarrow> Inr (errorVector ''Cannot extract coordinates from claim location'')
      | Inr (Some ccoords) \<Rightarrow>
     (case spatialScoring stamp claim scoords ccoords of
        Inl f \<Rightarrow> Inl f
      | Inr sd \<Rightarrow> combineScores stamp claim sd)))"

section \<open>Verification (verify.ts)\<close>

text \<open>
  The two capabilities of the outside: \<^verbatim>\<open>ethers.verifyMessage(message, signature)\<close>, which
  returns the recovered address or throws, and \<^verbatim>\<open>JSON.stringify\<close> of a stamp, which returns
  the text or throws. Both are parameters of the model.
\<close>

type_synonym recovery = "jsval \<Rightarrow> jsval \<Rightarrow> exn + string"

type_synonym serializer = "LocationStamp \<Rightarrow> exn + string"

definition setDetail :: "string \<Rightarrow> jsval \<Rightarrow> Checks \<Rightarrow> Checks" where
  "setDetail k v st = st\<lparr>details := (details st)(k \<mapsto> v)\<rparr>"

text \<open>\<^verbatim>\<open>!stamp.location\<close>: the member is absent, \<^verbatim>\<open>null\<close>, or the empty string.\<close>

fun noLocation :: "LocationData option \<Rightarrow> bool" where
  "noLocation None = True"
| "noLocation (Some (LocationText s)) = (s = [])"
| "noLocation (Some (LocationObject t c)) = False"
| "noLocation (Some LocationNull) = True"
| "noLocation (Some (LocationNullCoordinates t n)) = False"

text \<open>The structure checks (lines 32 to 58).\<close>

definition checkStructure :: "LocationStamp \<Rightarrow> Checks \<Rightarrow> Checks" where
  "checkStructure stamp st0 =
     (let st1 = (if lpVersion stamp \<noteq> ''0.2'' then
                   setDetail ''lpVersionError''
                     (JStr (''Expected '' @ quoted ''0.2'' @ '', got '' @ quoted (lpVersion stamp)))
                     (st0\<lparr>structureValid := False\<rparr>)
                 else st0);
          st2 = (if plugin stamp \<noteq> ''witnesschain'' then
                   setDetail ''pluginMismatch''
                     (JStr (''Expected '' @ quoted ''witnesschain'' @ '', got ''
                            @ quoted (plugin stamp)))
                     (st1\<lparr>structureValid := False\<rparr>)
                 else st1);
          st3 = (if noLocation (location stamp) \<or> temporalFootprint stamp = None then
                   setDetail ''missingFields'' (JBool True) (st2\<lparr>structureValid := False\<rparr>)
                 else st2);
          challengeResult = signal stamp ''challengeResult''
      in if \<not> truthy challengeResult then
           (if \<not> truthy (signal stamp ''challengeId'')
               \<or> signal stamp ''challengeSucceeded'' = JUndefined then
              setDetail ''missingChallengeData'' (JBool True) (st3\<lparr>structureValid := False\<rparr>)
            else st3)
         else st3)"

text \<open>
  The body of the first \<^verbatim>\<open>try\<close> (lines 66 to 80): \<open>Inl\<close> is the value thrown out of it.
\<close>

definition tryChallengeSignature :: "recovery \<Rightarrow> jsval \<Rightarrow> Checks \<Rightarrow> exn + Checks" where
  "tryChallengeSignature recover challengeResult st =
     (case getProp challengeResult ''message'' of
        Inl e \<Rightarrow> Inl e
      | Inr message \<Rightarrow>
     (case getProp challengeResult ''signature'' of
        Inl e \<Rightarrow> Inl e
      | Inr signature \<Rightarrow>
     (case recover message signature of
        Inl e \<Rightarrow> Inl e
      | Inr recovered \<Rightarrow>
     (case getProp challengeResult ''challenger'' of
        Inl e \<Rightarrow> Inl e
      | Inr challenger \<Rightarrow>
     (case callToLowerCase challenger of
        Inl e \<Rightarrow> Inl e
      | Inr expected \<Rightarrow>
          if toLowerCase recovered \<noteq> expected then
            Inr (setDetail ''challengeSignatureMismatch''
                   (JObj [(''expected'', challenger), (''recovered'', JStr recovered)])
                   (st\<lparr>signaturesValid := False\<rparr>))
          else
            Inr (setDetail ''recoveredAddress'' (JStr recovered)
                   (setDetail ''challengeSignerVerified'' (JBool True) st)))))))"

text \<open>The \<^verbatim>\<open>try\<close> with its \<^verbatim>\<open>catch\<close> (lines 64 to 85).\<close>

definition checkChallengeSignature :: "recovery \<Rightarrow> jsval \<Rightarrow> Checks \<Rightarrow> Checks" where
  "checkChallengeSignature recover challengeResult st =
     (if truthy challengeResult then
        (case tryChallengeSignature recover challengeResult st of
           Inl e \<Rightarrow>
             setDetail ''challengeSignatureError'' (JStr (errorMessage e))
               (st\<lparr>signaturesValid := False\<rparr>)
         | Inr st' \<Rightarrow> st')
      else st)"

text \<open>
  One turn of the loop over \<^verbatim>\<open>stamp.signatures\<close> (lines 90 to 105): the \<^verbatim>\<open>try\<close> body
  serializes the stamp without its signatures and recovers the signer; the \<^verbatim>\<open>catch\<close>
  records the message of what was thrown.
\<close>

definition tryStampSignature ::
  "recovery \<Rightarrow> serializer \<Rightarrow> LocationStamp \<Rightarrow> Signature \<Rightarrow> Checks \<Rightarrow> exn + Checks" where
  "tryStampSignature recover stringify stamp sig st =
     (case stringify (stamp\<lparr>signatures := None\<rparr>) of
        Inl e \<Rightarrow> Inl e
      | Inr message \<Rightarrow>
     (case recover (JStr message) (JStr (sigValue sig)) of
        Inl e \<Rightarrow> Inl e
      | Inr recovered \<Rightarrow>
          if toLowerCase recovered \<noteq> toLowerCase (subjectValue (signer sig)) then
            Inr (setDetail ''stampSignatureMismatch''
                   (JObj [(''expected'', JStr (subjectValue (signer sig))),
                          (''recovered'', JStr recovered)])
                   (st\<lparr>signaturesValid := False\<rparr>))
          else Inr st))"

definition checkStampSignature ::
  "recovery \<Rightarrow> serializer \<Rightarrow> LocationStamp \<Rightarrow> Signature \<Rightarrow> Checks \<Rightarrow> Checks" where
  "checkStampSignature recover stringify stamp sig st =
     (case tryStampSignature recover stringify stamp sig st of
        Inl e \<Rightarrow>
          setDetail ''stampSignatureError'' (JStr (errorMessage e))
            (st\<lparr>signaturesValid := False\<rparr>)
      | Inr st' \<Rightarrow> st')"

text \<open>
  \<^verbatim>\<open>stamp.signatures && stamp.signatures.length > 0\<close>, the loop, and the \<^verbatim>\<open>else if\<close> of
  lines 107 to 111.
\<close>

definition checkStampSignatures ::
  "recovery \<Rightarrow> serializer \<Rightarrow> LocationStamp \<Rightarrow> jsval \<Rightarrow> Checks \<Rightarrow> Checks" where
  "checkStampSignatures recover stringify stamp challengeResult st =
     (case signatures stamp of
        Some (sig # sigs) \<Rightarrow> fold (checkStampSignature recover stringify stamp) (sig # sigs) st
      | _ \<Rightarrow>
          if \<not> truthy challengeResult then
            setDetail ''noSignatures'' (JBool True) (st\<lparr>signaturesValid := False\<rparr>)
          else st)"

text \<open>
  The two range tests (lines 119 to 126) on the array of coordinates. A coordinate that
  the array does not have is \<^verbatim>\<open>undefined\<close>, and both comparisons with it are false.
\<close>

definition checkRanges :: "real list \<Rightarrow> Checks \<Rightarrow> Checks" where
  "checkRanges coords st =
     (let st1 = (case elemAt coords 0 of
                   None \<Rightarrow> st
                 | Some lon \<Rightarrow>
                     if lon < - 180 \<or> lon > 180 then
                       setDetail ''invalidLongitude'' (JNum lon)
                         (st\<lparr>signalsConsistent := False\<rparr>)
                     else st);
          st2 = (case elemAt coords 1 of
                   None \<Rightarrow> st1
                 | Some lat \<Rightarrow>
                     if lat < - 90 \<or> lat > 90 then
                       setDetail ''invalidLatitude'' (JNum lat)
                         (st1\<lparr>signalsConsistent := False\<rparr>)
                     else st1)
      in st2)"

text \<open>
  The coordinate ranges (lines 116 to 127): the read of the location, which stands outside
  every \<^verbatim>\<open>try\<close> and throws on \<^verbatim>\<open>null\<close>, and the two range tests.
\<close>

definition checkCoordinates :: "LocationData option \<Rightarrow> Checks \<Rightarrow> exn + Checks" where
  "checkCoordinates loc st =
     (case coordinatesMember loc of
        Inl e \<Rightarrow> Inl e
      | Inr None \<Rightarrow> Inr st
      | Inr (Some coords) \<Rightarrow> Inr (checkRanges coords st))"

text \<open>Lines 130 to 132: a failed challenge is a warning.\<close>

definition noteChallengeFailed :: "LocationStamp \<Rightarrow> Checks \<Rightarrow> Checks" where
  "noteChallengeFailed stamp st =
     (if signal stamp ''challengeSucceeded'' = JBool False then
        setDetail ''challengeFailed'' (JBool True) st
      else st)"

text \<open>\<^verbatim>\<open>typeof v !== 'boolean'\<close>.\<close>

fun notBoolean :: "jsval \<Rightarrow> bool" where
  "notBoolean (JBool b) = False"
| "notBoolean v = True"

text \<open>Lines 135 to 143; this read of \<^verbatim>\<open>consolidated.KnowLoc\<close> stands outside every \<^verbatim>\<open>try\<close>.\<close>

definition checkConsolidated :: "LocationStamp \<Rightarrow> Checks \<Rightarrow> exn + Checks" where
  "checkConsolidated stamp st =
     (let consolidated = signal stamp ''consolidatedResult''
      in if truthy consolidated then
           (case getProp consolidated ''KnowLoc'' of
              Inl e \<Rightarrow> Inl e
            | Inr knowLoc \<Rightarrow>
                if notBoolean knowLoc then
                  Inr (setDetail ''invalidConsolidatedResult'' (JStr ''KnowLoc must be boolean'')
                         (st\<lparr>signalsConsistent := False\<rparr>))
                else Inr st)
         else Inr st)"

text \<open>The three flags and the empty \<^verbatim>\<open>details\<close> of lines 25 to 28.\<close>

definition initialChecks :: Checks where
  "initialChecks =
     \<lparr>signaturesValid = True, structureValid = True, signalsConsistent = True,
      details = Map.empty\<rparr>"

text \<open>
  The state after the structure checks and the signature checks (lines 25 to 111), which
  throw nothing: each call that can throw stands in a \<^verbatim>\<open>try\<close>.
\<close>

definition checksBeforeCoordinates :: "recovery \<Rightarrow> serializer \<Rightarrow> LocationStamp \<Rightarrow> Checks" where
  "checksBeforeCoordinates recover stringify stamp =
     (let challengeResult = signal stamp ''challengeResult''
      in checkStampSignatures recover stringify stamp challengeResult
           (checkChallengeSignature recover challengeResult
              (checkStructure stamp initialChecks)))"

text \<open>
  \<^verbatim>\<open>verifyWitnessChainStamp\<close>: \<open>Inl\<close> is an exception that leaves the function (the
  rejection of the promise of this \<^verbatim>\<open>async\<close> function), from one of the two checks that
  stand outside every \<^verbatim>\<open>try\<close>.
\<close>

definition verifyWitnessChainStamp ::
  "recovery \<Rightarrow> serializer \<Rightarrow> LocationStamp \<Rightarrow> exn + StampVerificationResult" where
  "verifyWitnessChainStamp recover stringify stamp =
     (case checkCoordinates (location stamp)
             (checksBeforeCoordinates recover stringify stamp) of
        Inl e \<Rightarrow> Inl e
      | Inr st4 \<Rightarrow>
     (case checkConsolidated stamp (noteChallengeFailed stamp st4) of
        Inl e \<Rightarrow> Inl e
      | Inr st \<Rightarrow>
          Inr \<lparr>signaturesValid = signaturesValid st,
               structureValid = structureValid st,
               signalsConsistent = signalsConsistent st,
               details = details st,
               valid = (signaturesValid st \<and> structureValid st \<and> signalsConsistent st)\<rparr>))"

section \<open>The ambient state\<close>

text \<open>
  What a call can read or write besides its arguments: the clock (\<^verbatim>\<open>Date.now()\<close>, in
  milliseconds), the stamp objects that exist, each at its address (its index), and the
  time zone of the host (what \<^verbatim>\<open>process.env.TZ\<close> sets, for one), which \<^verbatim>\<open>new Date(text)\<close>
  reads for a text that carries no offset: \<open>localToUtc\<close> gives the instant, in
  milliseconds since the epoch, of a wall-clock reading, itself in milliseconds as if the
  clock on the wall showed UTC. A stamp passed by reference is the address of an object of
  \<open>stamps\<close>.
\<close>

record World =
  dateNow :: int
  stamps :: "LocationStamp list"
  localToUtc :: "int \<Rightarrow> int"

text \<open>An object literal makes a new object, at an address that no object had.\<close>

definition allocate :: "LocationStamp \<Rightarrow> World \<Rightarrow> nat \<times> World" where
  "allocate obj w = (length (stamps w), w\<lparr>stamps := stamps w @ [obj]\<rparr>)"

section \<open>Signing (index.ts)\<close>

text \<open>
  A \<^verbatim>\<open>StampSigner\<close>: \<^verbatim>\<open>signer.signer\<close>, \<^verbatim>\<open>signer.algorithm\<close> and \<^verbatim>\<open>signer.sign\<close>, whose promise
  resolves to the signature value or rejects.
\<close>

record StampSigner =
  signerOf :: Subject
  algorithmOf :: string
  signWith :: "string \<Rightarrow> exn + string"

text \<open>
  \<^verbatim>\<open>WitnessChainPlugin.sign\<close>. The spread \<^verbatim>\<open>{ ...stamp, signatures: [ ... ] }\<close> copies every
  member of the argument into a new object and then sets \<^verbatim>\<open>signatures\<close> to a new array of
  one record. \<open>Inl\<close> is the rejection of the returned promise. The argument \<open>stampRef\<close> is
  a reference, that is, an address below \<open>length (stamps w)\<close>.
\<close>

definition sign ::
  "serializer \<Rightarrow> nat \<Rightarrow> StampSigner \<Rightarrow> World \<Rightarrow> exn + nat \<times> World" where
  "sign stringify stampRef signer1 w =
     (let stamp = stamps w ! stampRef
      in (case stringify stamp of
            Inl e \<Rightarrow> Inl e
          | Inr data1 \<Rightarrow>
         (case signWith signer1 data1 of
            Inl e \<Rightarrow> Inl e
          | Inr sigValue1 \<Rightarrow>
              (let now = dateNow w div 1000
               in Inr (allocate
                         (stamp\<lparr>signatures :=
                            Some [\<lparr>signer = signerOf signer1,
                                   algorithm = algorithmOf signer1,
                                   sigValue = sigValue1,
                                   timestamp = now\<rparr>]\<rparr>)
                         w)))))"

text \<open>The signature sequence that a stamp carries: none when the member is absent.\<close>

definition signaturesOf :: "LocationStamp \<Rightarrow> Signature list" where
  "signaturesOf stamp = (case signatures stamp of None \<Rightarrow> [] | Some sigs \<Rightarrow> sigs)"

section \<open>Challenge results (types.ts)\<close>

text \<open>
  \<^verbatim>\<open>WitnessChainChallengeResult\<close>. The member \<^verbatim>\<open>id\<close> is written \<open>challengeId\<close>, the member
  \<^verbatim>\<open>radius\<close> of the two claimed locations \<open>claimedRadius\<close>, and \<^verbatim>\<open>'ipapi.co'\<close> \<open>ipapi_co\<close>.
\<close>

record Claims =
  latitude :: real
  longitude :: real
  claimedRadius :: real

record ChallengeOutcome =
  challenge_succeeded :: bool
  ping_delay :: real

record ConsolidatedResult =
  KnowLoc :: bool
  KnowLocUncertainty :: real
  ipapi_co :: "bool option"
  ipregistry :: "bool option"
  maxmind :: "bool option"
  verified :: bool

record WitnessChainChallengeResult =
  challengeId :: string
  challenge_start_time :: string
  challenger :: string
  challenger_id :: string
  challenger_claims :: Claims
  claims :: Claims
  result :: ChallengeOutcome
  message :: string
  signature :: string
  consolidated_result :: ConsolidatedResult

text \<open>The same objects as values of \<open>jsval\<close>, for the \<^verbatim>\<open>signals\<close> of a stamp.\<close>

definition claimsValue :: "Claims \<Rightarrow> jsval" where
  "claimsValue c =
     JObj [(''latitude'', JNum (latitude c)),
           (''longitude'', JNum (longitude c)),
           (''radius'', JNum (claimedRadius c))]"

definition optionalMember :: "string \<Rightarrow> bool option \<Rightarrow> (string \<times> jsval) list" where
  "optionalMember k v = (case v of None \<Rightarrow> [] | Some b \<Rightarrow> [(k, JBool b)])"

definition consolidatedValue :: "ConsolidatedResult \<Rightarrow> jsval" where
  "consolidatedValue c =
     JObj ([(''KnowLoc'', JBool (KnowLoc c)),
            (''KnowLocUncertainty'', JNum (KnowLocUncertainty c))]
           @ optionalMember ''ipapi.co'' (ipapi_co c)
           @ optionalMember ''ipregistry'' (ipregistry c)
           @ optionalMember ''maxmind'' (maxmind c)
           @ [(''verified'', JBool (verified c))])"

section \<open>Normalizing and building (collect.ts, create.ts)\<close>

text \<open>
  \<^verbatim>\<open>RawSignals\<close>; its members \<^verbatim>\<open>plugin\<close> and \<^verbatim>\<open>timestamp\<close> are written \<open>sourcePlugin\<close> and
  \<open>collectedAt\<close>. \<^verbatim>\<open>data\<close> holds the members that this plugin puts there.
\<close>

record SignalData =
  challengeResult :: "WitnessChainChallengeResult option"
  proverClaims :: "Claims option"
  proverId :: "string option"

record RawSignals =
  sourcePlugin :: string
  collectedAt :: int
  data :: SignalData

text \<open>
  \<^verbatim>\<open>new Date(s).getTime()\<close>: the milliseconds of the instant that the text denotes, or
  \<open>None\<close> for NaN, the time of an invalid date. What a text denotes by its form alone is
  a parameter of the model, a \<open>dateReader\<close>: an instant, for a date-only form and for a
  text with \<^verbatim>\<open>Z\<close> or an offset, or the reading of a clock on the wall, for a date-time
  without an offset. The built-in takes such a reading for local time, in the time zone of
  the host where the call runs.
\<close>

datatype DateReading = Instant int | WallClock int

type_synonym dateReader = "string \<Rightarrow> DateReading option"

type_synonym dateParser = "string \<Rightarrow> int option"

definition hostGetTime :: "dateReader \<Rightarrow> World \<Rightarrow> dateParser" where
  "hostGetTime readDate w s =
     (case readDate s of
        None \<Rightarrow> None
      | Some (Instant ms) \<Rightarrow> Some ms
      | Some (WallClock ms) \<Rightarrow> Some (localToUtc w ms))"

text \<open>\<^verbatim>\<open>signalsFromChallengeResult\<close>.\<close>

definition signalsFromChallengeResult ::
  "dateParser \<Rightarrow> WitnessChainChallengeResult \<Rightarrow> fault + RawSignals" where
  "signalsFromChallengeResult getTime result1 =
     (case getTime (challenge_start_time result1) of
        None \<Rightarrow> Inl NonReal
      | Some ms \<Rightarrow>
          Inr \<lparr>sourcePlugin = ''witnesschain'',
               collectedAt = ms div 1000,
               data = \<lparr>challengeResult = Some result1,
                        proverClaims = Some (claims result1),
                        proverId = None\<rparr>\<rparr>)"

definition PLUGIN_NAME :: string where
  "PLUGIN_NAME = ''witnesschain''"

definition PLUGIN_VERSION :: string where
  "PLUGIN_VERSION = ''0.1.0''"

text \<open>\<^verbatim>\<open>createWitnessChainStamp\<close>.\<close>

definition createWitnessChainStamp :: "dateParser \<Rightarrow> RawSignals \<Rightarrow> fault + LocationStamp" where
  "createWitnessChainStamp getTime signals1 =
     (case challengeResult (data signals1) of
        None \<Rightarrow> Inl (Thrown (Error ''WitnessChain signals must include challengeResult''))
      | Some cr \<Rightarrow>
     (case getTime (challenge_start_time cr) of
        None \<Rightarrow> Inl NonReal
      | Some ms \<Rightarrow>
          (let startTime = ms div 1000;
               durationSeconds = max 10 (\<lceil>ping_delay (result cr) / 1000000\<rceil> + 5)
           in Inr \<lparr>lpVersion = ''0.2'',
                    locationType = ''geojson-point'',
                    location = Some (LocationObject ''Point''
                                       (Some [longitude (claims cr), latitude (claims cr)])),
                    srs = ''EPSG:4326'',
                    temporalFootprint =
                      Some \<lparr>start = of_int startTime,
                            finish = of_int (startTime + durationSeconds)\<rparr>,
                    plugin = PLUGIN_NAME,
                    pluginVersion = PLUGIN_VERSION,
                    signals =
                      [(''challengeId'', JStr (challengeId cr)),
                       (''challenger'', JStr (challenger cr)),
                       (''challengerId'', JStr (challenger_id cr)),
                       (''challengerClaims'', claimsValue (challenger_claims cr)),
                       (''proverClaims'', claimsValue (claims cr)),
                       (''challengeSucceeded'', JBool (challenge_succeeded (result cr))),
                       (''pingDelayMicroseconds'', JNum (ping_delay (result cr))),
                       (''consolidatedResult'', consolidatedValue (consolidated_result cr)),
                       (''knowLocUncertaintyKm'',
                          JNum (KnowLocUncertainty (consolidated_result cr)))],
                    signatures = None\<rparr>)))"

text \<open>
  The normalizer followed by the builder, run in a world, whose time zone each of the two
  reads through \<^verbatim>\<open>new Date\<close>; neither writes to the world.
\<close>

definition normalizeThenBuild ::
  "dateReader \<Rightarrow> WitnessChainChallengeResult \<Rightarrow> World \<Rightarrow> (fault + LocationStamp) \<times> World" where
  "normalizeThenBuild readDate e w =
     (case signalsFromChallengeResult (hostGetTime readDate w) e of
        Inl f \<Rightarrow> (Inl f, w)
      | Inr signals1 \<Rightarrow> (createWitnessChainStamp (hostGetTime readDate w) signals1, w))"

section \<open>Derived definitions and examples\<close>

text \<open>
  The last check of the verifier as a function that returns: \<open>consolidated\<close> is read only
  after it was tested for truth (lemma \<open>checkConsolidated_returns\<close> below).
\<close>

definition afterConsolidated :: "LocationStamp \<Rightarrow> Checks \<Rightarrow> Checks" where
  "afterConsolidated stamp st =
     (if truthy (signal stamp ''consolidatedResult'')
             \<and> notBoolean (readMember (signal stamp ''consolidatedResult'') ''KnowLoc'')
          then setDetail ''invalidConsolidatedResult'' (JStr ''KnowLoc must be boolean'')
                 (st\<lparr>signalsConsistent := False\<rparr>)
          else st)"

text \<open>
  The locations that the read of lines 116 to 119 takes without a throw: every location
  but \<^verbatim>\<open>null\<close> and an object whose \<^verbatim>\<open>coordinates\<close> member is \<^verbatim>\<open>null\<close> or \<^verbatim>\<open>undefined\<close>.
\<close>

fun locationReadable :: "LocationData option \<Rightarrow> bool" where
  "locationReadable (Some LocationNull) = False"
| "locationReadable (Some (LocationNullCoordinates t n)) = False"
| "locationReadable l = True"

text \<open>The check of the coordinate ranges on such a location, as a function that returns.\<close>

definition rangesChecked :: "LocationData option \<Rightarrow> Checks \<Rightarrow> Checks" where
  "rangesChecked loc st =
     (case coordinatesOf loc of None \<Rightarrow> st | Some coords \<Rightarrow> checkRanges coords st)"

text \<open>The state before the last check, for such a location.\<close>

definition checksBeforeConsolidated :: "recovery \<Rightarrow> serializer \<Rightarrow> LocationStamp \<Rightarrow> Checks" where
  "checksBeforeConsolidated recover stringify stamp =
     noteChallengeFailed stamp
       (rangesChecked (location stamp) (checksBeforeCoordinates recover stringify stamp))"

text \<open>The three flags and the \<^verbatim>\<open>details\<close> when the verifier reaches its \<^verbatim>\<open>return\<close>.\<close>

definition finalChecks :: "recovery \<Rightarrow> serializer \<Rightarrow> LocationStamp \<Rightarrow> Checks" where
  "finalChecks recover stringify stamp =
     afterConsolidated stamp (checksBeforeConsolidated recover stringify stamp)"

text \<open>
  A stamp as the builder makes it from the fixture of the tests (New York,
  2026-01-15T12:00:00Z), with the two signals that the structure check asks for.
\<close>

definition exampleStamp :: LocationStamp where
  "exampleStamp =
     \<lparr>lpVersion = ''0.2'',
      locationType = ''geojson-point'',
      location = Some (LocationObject ''Point'' (Some [- 73.9857, 40.7484])),
      srs = ''EPSG:4326'',
      temporalFootprint = Some \<lparr>start = 1768478400, finish = 1768478410\<rparr>,
      plugin = ''witnesschain'',
      pluginVersion = ''0.1.0'',
      signals = [(''challengeId'', JStr ''challenge-001''),
                 (''challengeSucceeded'', JBool True)],
      signatures = None\<rparr>"

text \<open>An embedded challenge result, a wrapper signature, and stand-ins for the outside.\<close>

definition exampleChallenge :: jsval where
  "exampleChallenge =
     JObj [(''message'', JStr ''challenge-001''),
           (''signature'', JStr ''0x1b''),
           (''challenger'', JStr ''0xF39F'')]"

definition exampleSignature :: "string \<Rightarrow> Signature" where
  "exampleSignature who =
     \<lparr>signer = \<lparr>scheme = ''eth-address'', subjectValue = who\<rparr>,
      algorithm = ''secp256k1'',
      sigValue = ''0x2c'',
      timestamp = 1768478500\<rparr>"

definition failingRecovery :: recovery where
  "failingRecovery message1 signature1 = Inl (Error ''invalid signature'')"

definition fixedRecovery :: "string \<Rightarrow> recovery" where
  "fixedRecovery address message1 signature1 = Inr address"

definition fixedStringify :: serializer where
  "fixedStringify stamp = Inr ''{}''"

definition signedExample :: LocationStamp where
  "signedExample =
     exampleStamp\<lparr>signals := (''challengeResult'', exampleChallenge) # signals exampleStamp,
                  signatures := Some [exampleSignature ''0xABCD'']\<rparr>"

text \<open>The example stamp with \<^verbatim>\<open>null\<close> for its location, as JSON has an absent value.\<close>

definition nullLocationStamp :: LocationStamp where
  "nullLocationStamp = exampleStamp\<lparr>location := Some LocationNull\<rparr>"

text \<open>The stamp of the test \<^verbatim>\<open>returns error for non-GeoJSON stamp location\<close>.\<close>

definition textStamp :: LocationStamp where
  "textStamp = exampleStamp\<lparr>location := Some (LocationText ''h3:8928308280fffff'')\<rparr>"

section \<open>The verifier step by step\<close>

text \<open>The states of a loop after each of its turns.\<close>

fun statesAfter :: "('a \<Rightarrow> 's \<Rightarrow> 's) \<Rightarrow> 'a list \<Rightarrow> 's \<Rightarrow> 's list" where
  "statesAfter f [] st = []"
| "statesAfter f (x # xs) st = f x st # statesAfter f xs (f x st)"

text \<open>
  The flags and \<^verbatim>\<open>details\<close> as one call of the verifier goes through them: at the start,
  after the structure checks, after the challenge signature, after each turn of the loop
  over the wrapper signatures, after that whole block, after the coordinate ranges, after
  the warning, and at the \<^verbatim>\<open>return\<close>. A call that throws where it reads the location has
  no state after that block.
\<close>

definition verifyTrace :: "recovery \<Rightarrow> serializer \<Rightarrow> LocationStamp \<Rightarrow> Checks list" where
  "verifyTrace recover stringify stamp =
     (let challengeResult = signal stamp ''challengeResult'';
          st1 = checkStructure stamp initialChecks;
          st2 = checkChallengeSignature recover challengeResult st1;
          turns = (case signatures stamp of
                     None \<Rightarrow> []
                   | Some sigs \<Rightarrow>
                       statesAfter (checkStampSignature recover stringify stamp) sigs st2);
          st3 = checkStampSignatures recover stringify stamp challengeResult st2
      in [initialChecks, st1] @ (st2 # turns) @ [st3]
         @ (case checkCoordinates (location stamp) st3 of
              Inl e \<Rightarrow> []
            | Inr st4 \<Rightarrow>
                [st4, noteChallengeFailed stamp st4,
                 afterConsolidated stamp (noteChallengeFailed stamp st4)]))"

text \<open>The two keys that a turn of the loop writes.\<close>

definition loopKeys :: "string set" where
  "loopKeys = {''stampSignatureMismatch'', ''stampSignatureError''}"

text \<open>
  From one state to a later one, no key is lost, and no key but those of the loop gets
  another value.
\<close>

definition keepsDetails :: "Checks \<Rightarrow> Checks \<Rightarrow> bool" where
  "keepsDetails st st' =
     (dom (details st) \<subseteq> dom (details st')
      \<and> (\<forall>k v. k \<notin> loopKeys \<and> details st k = Some v \<longrightarrow> details st' k = Some v))"

text \<open>
  The pair that one turn of the loop records under \<open>stampSignatureMismatch\<close>, if the
  recovered signer of this signature is not the declared one.
\<close>

definition mismatchOf :: "recovery \<Rightarrow> serializer \<Rightarrow> LocationStamp \<Rightarrow> Signature \<Rightarrow> jsval option" where
  "mismatchOf recover stringify stamp sig =
     (case stringify (stamp\<lparr>signatures := None\<rparr>) of
        Inl e \<Rightarrow> None
      | Inr message1 \<Rightarrow>
     (case recover (JStr message1) (JStr (sigValue sig)) of
        Inl e \<Rightarrow> None
      | Inr recovered \<Rightarrow>
          if toLowerCase recovered \<noteq> toLowerCase (subjectValue (signer sig)) then
            Some (JObj [(''expected'', JStr (subjectValue (signer sig))),
                        (''recovered'', JStr recovered)])
          else None))"

text \<open>
  The message that one turn of the loop records under \<open>stampSignatureError\<close>, if the
  serialization or the recovery throws for this signature.
\<close>

definition throwOf :: "recovery \<Rightarrow> serializer \<Rightarrow> LocationStamp \<Rightarrow> Signature \<Rightarrow> jsval option" where
  "throwOf recover stringify stamp sig =
     (case stringify (stamp\<lparr>signatures := None\<rparr>) of
        Inl e \<Rightarrow> Some (JStr (errorMessage e))
      | Inr message1 \<Rightarrow>
     (case recover (JStr message1) (JStr (sigValue sig)) of
        Inl e \<Rightarrow> Some (JStr (errorMessage e))
      | Inr recovered \<Rightarrow> None))"

definition lastOf :: "'a list \<Rightarrow> 'a option" where
  "lastOf xs = (case xs of [] \<Rightarrow> None | y # ys \<Rightarrow> Some (last xs))"

text \<open>The \<^verbatim>\<open>details\<close> that a call returns.\<close>

definition detailsOf :: "exn + StampVerificationResult \<Rightarrow> (string \<rightharpoonup> jsval)" where
  "detailsOf outcome = (case outcome of Inl e \<Rightarrow> Map.empty | Inr r \<Rightarrow> details r)"

text \<open>The example stamp under two wrapper signatures of two signers.\<close>

definition twiceSigned :: LocationStamp where
  "twiceSigned =
     exampleStamp\<lparr>signatures := Some [exampleSignature ''0xAAAA'', exampleSignature ''0xBBBB'']\<rparr>"

section \<open>Evaluation: derived definitions and examples\<close>

text \<open>The base spatial score as a number, for an effective radius other than 0.\<close>

definition spatialValue :: "real \<Rightarrow> real \<Rightarrow> real" where
  "spatialValue effectiveRadius distance =
     (case baseSpatial distance effectiveRadius of Inl f \<Rightarrow> 0 | Inr s \<Rightarrow> s)"

text \<open>
  Inputs on which the arithmetic of the evaluator stays within the real numbers and its
  read of the time window does not throw: both coordinate arrays have a longitude and a
  latitude, both latitudes lie in \<open>[-90, 90]\<close>, the stamp has its time window, the
  uncertainty is a number or absent, and the effective radius is not 0.
\<close>

definition numericInputs :: "LocationStamp \<Rightarrow> LocationClaim \<Rightarrow> bool" where
  "numericInputs stamp claim =
     (case (coordinatesOf (location stamp), coordinatesOf (claimLocation claim)) of
        (Some (stampLon # stampLat # srest), Some (claimLon # claimLat # crest)) \<Rightarrow>
          - 90 \<le> stampLat \<and> stampLat \<le> 90 \<and> - 90 \<le> claimLat \<and> claimLat \<le> 90
          \<and> temporalFootprint stamp \<noteq> None
          \<and> (case uncertaintyKm (signal stamp ''knowLocUncertaintyKm'') of
                Inl f \<Rightarrow> False
              | Inr knowLocUncertaintyKm \<Rightarrow> radius claim + knowLocUncertaintyKm * 1000 \<noteq> 0)
      | _ \<Rightarrow> False)"

text \<open>
  The otherwise identical stamp:
  \<^verbatim>\<open>{ ...stamp, signals: { ...stamp.signals, challengeSucceeded: b } }\<close>.
\<close>

definition withChallengeSucceeded :: "bool \<Rightarrow> LocationStamp \<Rightarrow> LocationStamp" where
  "withChallengeSucceeded b stamp =
     stamp\<lparr>signals := (''challengeSucceeded'', JBool b) # signals stamp\<rparr>"

text \<open>The score that a call returns.\<close>

definition scoreOf :: "fault + CredibilityVector \<Rightarrow> real option" where
  "scoreOf outcome = (case outcome of Inl f \<Rightarrow> None | Inr v \<Rightarrow> Some (score v))"

text \<open>
  The claim of the tests (\<^verbatim>\<open>nearClaim\<close>: the prover's own point, 500 m, five minutes around
  the challenge), and a failed challenge on the equator against a claim half a turn away
  and a year earlier.
\<close>

definition nearClaim :: LocationClaim where
  "nearClaim =
     \<lparr>claimLocation = Some (LocationObject ''Point'' (Some [- 73.9857, 40.7484])),
      radius = 500,
      time = \<lparr>start = 1768478100, finish = 1768478700\<rparr>\<rparr>"

definition exampleFailed :: LocationStamp where
  "exampleFailed = withChallengeSucceeded False exampleStamp"

text \<open>
  Three more claims at the same point: one whose window starts in the middle of the
  example stamp's window, one whose window is the example stamp's window, and one whose
  location is a string identifier.
\<close>

definition lateClaim :: LocationClaim where
  "lateClaim = nearClaim\<lparr>time := \<lparr>start = 1768478405, finish = 1768478700\<rparr>\<rparr>"

definition sameWindowClaim :: LocationClaim where
  "sameWindowClaim = nearClaim\<lparr>time := \<lparr>start = 1768478400, finish = 1768478410\<rparr>\<rparr>"

definition textClaim :: LocationClaim where
  "textClaim = nearClaim\<lparr>claimLocation := Some (LocationText ''h3:8928308280fffff'')\<rparr>"

definition equatorFailed :: LocationStamp where
  "equatorFailed =
     exampleStamp\<lparr>location := Some (LocationObject ''Point'' (Some [0, 0])),
                  signals := [(''challengeId'', JStr ''challenge-fail-001''),
                              (''challengeSucceeded'', JBool False)]\<rparr>"

definition antipodeClaim :: LocationClaim where
  "antipodeClaim =
     \<lparr>claimLocation = Some (LocationObject ''Point'' (Some [180, 0])),
      radius = 500,
      time = \<lparr>start = 1735689600, finish = 1735693200\<rparr>\<rparr>"

section \<open>Signing and building: derived definitions and examples\<close>

text \<open>The signature sequence of the stamp that a call of \<open>sign\<close> returns.\<close>

definition signedSignatures :: "exn + nat \<times> World \<Rightarrow> Signature list" where
  "signedSignatures outcome =
     (case outcome of Inl e \<Rightarrow> [] | Inr (r, w) \<Rightarrow> signaturesOf (stamps w ! r))"

text \<open>A signer, and a world that holds one stamp, on a host whose time zone is UTC.\<close>

definition exampleSigner :: StampSigner where
  "exampleSigner =
     \<lparr>signerOf = \<lparr>scheme = ''eth-address'', subjectValue = ''0xEF01''\<rparr>,
      algorithmOf = ''secp256k1'',
      signWith = (\<lambda>data1. Inr ''0x3d'')\<rparr>"

definition exampleWorld :: "LocationStamp \<Rightarrow> World" where
  "exampleWorld stamp =
     \<lparr>dateNow = 1768478500123, stamps = [stamp], localToUtc = (\<lambda>ms. ms)\<rparr>"

text \<open>
  The same world on a host in New York, five hours behind UTC in January, and that host
  at another time, with no stamp object.
\<close>

definition newYorkWorld :: World where
  "newYorkWorld = (exampleWorld exampleStamp)\<lparr>localToUtc := (\<lambda>ms. ms + 18000000)\<rparr>"

definition newYorkLater :: World where
  "newYorkLater = newYorkWorld\<lparr>dateNow := 1768999999000, stamps := []\<rparr>"

text \<open>
  The challenge result of the tests' fixture, the same result with its start time written
  without the \<^verbatim>\<open>Z\<close>, and a reader of dates that knows the two texts.
\<close>

definition fixtureResult :: WitnessChainChallengeResult where
  "fixtureResult =
     \<lparr>challengeId = ''challenge-001'',
      challenge_start_time = ''2026-01-15T12:00:00Z'',
      challenger = ''0xf39Fd6e51aad88F6F4ce6aB8827279cffFb92266'',
      challenger_id = ''watchtower-nyc-01'',
      challenger_claims = \<lparr>latitude = 40.7128, longitude = - 74.006, claimedRadius = 50\<rparr>,
      claims = \<lparr>latitude = 40.7484, longitude = - 73.9857, claimedRadius = 100\<rparr>,
      result = \<lparr>challenge_succeeded = True, ping_delay = 15000\<rparr>,
      message = ''{}'',
      signature = ''0x1b'',
      consolidated_result =
        \<lparr>KnowLoc = True, KnowLocUncertainty = 5.2, ipapi_co = Some True,
         ipregistry = Some True, maxmind = Some False, verified = True\<rparr>\<rparr>"

definition localFixture :: WitnessChainChallengeResult where
  "localFixture = fixtureResult\<lparr>challenge_start_time := ''2026-01-15T12:00:00''\<rparr>"

definition fixtureReader :: dateReader where
  "fixtureReader s =
     (if s = ''2026-01-15T12:00:00Z'' then Some (Instant 1768478400000)
      else if s = ''2026-01-15T12:00:00'' then Some (WallClock 1768478400000)
      else None)"

section \<open>Temporal overlap\<close>

lemma overlap_le_shorter:
  "min (finish a) (finish b) - max (start a) (start b)
     \<le> min (finish a - start a) (finish b - start b)"
  by (simp add: min_def max_def)

lemma temporalOverlap_unfold:
  "temporalOverlap a b =
     (if min (finish a) (finish b) \<le> max (start a) (start b) then 0
      else (min (finish a) (finish b) - max (start a) (start b))
            / min (finish a - start a) (finish b - start b))"
proof (cases "min (finish a) (finish b) \<le> max (start a) (start b)")
  case True
  then show ?thesis unfolding temporalOverlap_def Let_def by (simp only: if_True)
next
  case False
  then have "0 < min (finish a) (finish b) - max (start a) (start b)" by linarith
  with overlap_le_shorter [of a b]
  have pos: "0 < min (finish a - start a) (finish b - start b)" by linarith
  show ?thesis unfolding temporalOverlap_def Let_def
    using False pos by (simp only: if_False if_True)
qed

lemma temporalOverlap_nonneg: "0 \<le> temporalOverlap a b"
proof (cases "min (finish a) (finish b) \<le> max (start a) (start b)")
  case True
  then show ?thesis by (simp only: temporalOverlap_unfold if_True order_refl)
next
  case False
  then have o: "0 < min (finish a) (finish b) - max (start a) (start b)" by linarith
  with overlap_le_shorter [of a b]
  have pos: "0 < min (finish a - start a) (finish b - start b)" by linarith
  have "0 \<le> (min (finish a) (finish b) - max (start a) (start b))
            / min (finish a - start a) (finish b - start b)"
    using o pos by (intro divide_nonneg_pos) linarith+
  then show ?thesis using False by (simp only: temporalOverlap_unfold if_False)
qed

lemma temporalOverlap_le_one: "temporalOverlap a b \<le> 1"
proof (cases "min (finish a) (finish b) \<le> max (start a) (start b)")
  case True
  then show ?thesis by (simp only: temporalOverlap_unfold if_True zero_le_one)
next
  case False
  then have o: "0 < min (finish a) (finish b) - max (start a) (start b)" by linarith
  with overlap_le_shorter [of a b]
  have pos: "0 < min (finish a - start a) (finish b - start b)" by linarith
  have "(min (finish a) (finish b) - max (start a) (start b))
            / min (finish a - start a) (finish b - start b) \<le> 1"
    using overlap_le_shorter [of a b] pos by (simp only: pos_divide_le_eq mult_1)
  then show ?thesis using False by (simp only: temporalOverlap_unfold if_False)
qed

lemma temporalOverlap_disjoint:
  "finish a \<le> start b \<or> finish b \<le> start a \<Longrightarrow> temporalOverlap a b = 0"
proof -
  assume "finish a \<le> start b \<or> finish b \<le> start a"
  then have "min (finish a) (finish b) \<le> max (start a) (start b)"
    by (auto simp: min_def max_def)
  then show ?thesis by (simp only: temporalOverlap_unfold if_True)
qed

lemma temporalOverlap_same: "start a < finish a \<Longrightarrow> temporalOverlap a a = 1"
  by (simp add: temporalOverlap_unfold)

text \<open>
  The helper \<^verbatim>\<open>temporalOverlap\<close> on every pair of time windows: the overlap (the least end
  minus the greatest start) divided by the shorter of the two durations when the windows
  overlap and that duration is positive, and 0 when the least end is at most the greatest
  start, or when the shorter duration is 0. Hence it lies in \<open>[0, 1]\<close>, it is 0 for disjoint
  windows, and it is 1 for two identical windows of positive duration.
\<close>

lemma temporalOverlap_ratio:
  "(max (start a) (start b) < min (finish a) (finish b)
      \<and> 0 < min (finish a - start a) (finish b - start b)
      \<longrightarrow> temporalOverlap a b
            = (min (finish a) (finish b) - max (start a) (start b))
              / min (finish a - start a) (finish b - start b))
   \<and> (min (finish a) (finish b) \<le> max (start a) (start b)
      \<or> min (finish a - start a) (finish b - start b) = 0
      \<longrightarrow> temporalOverlap a b = 0)
   \<and> 0 \<le> temporalOverlap a b \<and> temporalOverlap a b \<le> 1
   \<and> (finish a \<le> start b \<or> finish b \<le> start a \<longrightarrow> temporalOverlap a b = 0)
   \<and> (start a < finish a \<longrightarrow> temporalOverlap a a = 1)"
proof -
  have ratio: "temporalOverlap a b
            = (min (finish a) (finish b) - max (start a) (start b))
              / min (finish a - start a) (finish b - start b)"
    if "max (start a) (start b) < min (finish a) (finish b)"
  proof -
    from that have "\<not> min (finish a) (finish b) \<le> max (start a) (start b)" by linarith
    then show ?thesis by (simp only: temporalOverlap_unfold if_False)
  qed
  have zero: "temporalOverlap a b = 0"
    if "min (finish a) (finish b) \<le> max (start a) (start b)
        \<or> min (finish a - start a) (finish b - start b) = 0"
  proof -
    from that overlap_le_shorter [of a b]
    have "min (finish a) (finish b) \<le> max (start a) (start b)" by linarith
    then show ?thesis by (simp only: temporalOverlap_unfold if_True)
  qed
  show ?thesis
    using ratio zero temporalOverlap_nonneg [of a b] temporalOverlap_le_one [of a b]
      temporalOverlap_disjoint [of a b] temporalOverlap_same [of a]
    by blast
qed

lemma temporalOverlap_examples:
  "temporalOverlap \<lparr>start = 0, finish = 10\<rparr> \<lparr>start = 5, finish = 20\<rparr> = 1 / 2
   \<and> temporalOverlap \<lparr>start = 0, finish = 10\<rparr> \<lparr>start = 20, finish = 30\<rparr> = 0
   \<and> temporalOverlap \<lparr>start = 0, finish = 10\<rparr> \<lparr>start = 0, finish = 10\<rparr> = 1"
  using temporalOverlap_ratio [of "\<lparr>start = 0, finish = 10\<rparr>" "\<lparr>start = 5, finish = 20\<rparr>"]
    temporalOverlap_ratio [of "\<lparr>start = 0, finish = 10\<rparr>" "\<lparr>start = 20, finish = 30\<rparr>"]
    temporalOverlap_ratio [of "\<lparr>start = 0, finish = 10\<rparr>" "\<lparr>start = 0, finish = 10\<rparr>"]
  by simp


section \<open>Verification: what every check keeps\<close>

lemma getProp_truthy: "truthy v \<Longrightarrow> getProp v k = Inr (readMember v k)"
  by (cases v) (simp_all add: getProp_def)

lemma checkConsolidated_returns:
  "checkConsolidated stamp st =
     Inr (if truthy (signal stamp ''consolidatedResult'')
             \<and> notBoolean (readMember (signal stamp ''consolidatedResult'') ''KnowLoc'')
          then setDetail ''invalidConsolidatedResult'' (JStr ''KnowLoc must be boolean'')
                 (st\<lparr>signalsConsistent := False\<rparr>)
          else st)"
  by (simp add: checkConsolidated_def Let_def getProp_truthy)

text \<open>The read of the location returns on every location but the two that it throws on.\<close>

lemma coordinatesMember_readable:
  "locationReadable loc \<Longrightarrow> coordinatesMember loc = Inr (coordinatesOf loc)"
proof (cases loc)
  case None
  then show ?thesis by simp
next
  case (Some l)
  assume "locationReadable loc"
  with Some show ?thesis
  proof (cases l)
    case (LocationObject t c)
    with Some show ?thesis by (cases c) simp_all
  qed simp_all
qed

lemma coordinatesMember_point:
  "coordinatesOf loc = Some coords \<Longrightarrow> coordinatesMember loc = Inr (Some coords)"
  by (cases loc rule: coordinatesOf.cases) simp_all

lemma coordinatesMember_throws:
  "\<not> locationReadable loc \<Longrightarrow> \<exists>e. coordinatesMember loc = Inl (TypeError e)"
  by (cases loc rule: locationReadable.cases) simp_all

lemma checkCoordinates_readable:
  "locationReadable loc \<Longrightarrow> checkCoordinates loc st = Inr (rangesChecked loc st)"
  by (simp add: checkCoordinates_def rangesChecked_def coordinatesMember_readable
        split: option.splits)

lemma checkCoordinates_throws:
  "\<not> locationReadable loc \<Longrightarrow> \<exists>e. checkCoordinates loc st = Inl (TypeError e)"
  using coordinatesMember_throws [of loc] by (auto simp: checkCoordinates_def)

lemma verify_returns:
  "locationReadable (location stamp) \<Longrightarrow>
   verifyWitnessChainStamp recover stringify stamp =
     Inr (let st = afterConsolidated stamp (checksBeforeConsolidated recover stringify stamp)
          in \<lparr>signaturesValid = signaturesValid st,
               structureValid = structureValid st,
               signalsConsistent = signalsConsistent st,
               details = details st,
               valid = (signaturesValid st \<and> structureValid st \<and> signalsConsistent st)\<rparr>)"
  by (simp add: verifyWitnessChainStamp_def checkCoordinates_readable checkConsolidated_returns
        checksBeforeConsolidated_def afterConsolidated_def Let_def)

lemma verify_throws:
  "\<not> locationReadable (location stamp) \<Longrightarrow>
   \<exists>e. verifyWitnessChainStamp recover stringify stamp = Inl (TypeError e)"
  using checkCoordinates_throws [of "location stamp" "checksBeforeCoordinates recover stringify stamp"]
  by (auto simp: verifyWitnessChainStamp_def)

lemma setDetail_simps [simp]:
  "signaturesValid (setDetail k v st) = signaturesValid st"
  "structureValid (setDetail k v st) = structureValid st"
  "signalsConsistent (setDetail k v st) = signalsConsistent st"
  "details (setDetail k v st) = (details st)(k \<mapsto> v)"
  by (simp_all add: setDetail_def)

lemma checkStructure_frame:
  "signaturesValid (checkStructure stamp st) = signaturesValid st"
  "signalsConsistent (checkStructure stamp st) = signalsConsistent st"
  by (simp_all add: checkStructure_def Let_def)

lemma checkStructure_details:
  "k \<notin> {''lpVersionError'', ''pluginMismatch'', ''missingFields'', ''missingChallengeData''}
   \<Longrightarrow> details (checkStructure stamp st) k = details st k"
  by (simp add: checkStructure_def Let_def)

lemma checkStructure_dom: "dom (details st) \<subseteq> dom (details (checkStructure stamp st))"
  by (auto simp add: checkStructure_def Let_def)

lemma tryChallengeSignature_throws:
  "truthy cr \<Longrightarrow> recover (readMember cr ''message'') (readMember cr ''signature'') = Inl e
   \<Longrightarrow> tryChallengeSignature recover cr st = Inl e"
  by (simp add: tryChallengeSignature_def getProp_truthy)

lemma tryChallengeSignature_mismatch:
  "truthy cr \<Longrightarrow> recover (readMember cr ''message'') (readMember cr ''signature'') = Inr recovered
   \<Longrightarrow> callToLowerCase (readMember cr ''challenger'') = Inr expected
   \<Longrightarrow> toLowerCase recovered \<noteq> expected
   \<Longrightarrow> tryChallengeSignature recover cr st
       = Inr (setDetail ''challengeSignatureMismatch''
                (JObj [(''expected'', readMember cr ''challenger''), (''recovered'', JStr recovered)])
                (st\<lparr>signaturesValid := False\<rparr>))"
  by (simp add: tryChallengeSignature_def getProp_truthy)

lemma checkChallengeSignature_flags:
  "structureValid (checkChallengeSignature recover cr st) = structureValid st"
  "signalsConsistent (checkChallengeSignature recover cr st) = signalsConsistent st"
  "signaturesValid (checkChallengeSignature recover cr st) \<Longrightarrow> signaturesValid st"
  by (auto simp: checkChallengeSignature_def tryChallengeSignature_def
           split: sum.splits if_splits)

lemma checkChallengeSignature_details:
  "k \<notin> {''challengeSignatureMismatch'', ''challengeSignerVerified'', ''recoveredAddress'',
          ''challengeSignatureError''}
   \<Longrightarrow> details (checkChallengeSignature recover cr st) k = details st k"
  by (auto simp: checkChallengeSignature_def tryChallengeSignature_def
           split: sum.splits if_splits)

lemma checkChallengeSignature_dom:
  "dom (details st) \<subseteq> dom (details (checkChallengeSignature recover cr st))"
  by (auto simp: checkChallengeSignature_def tryChallengeSignature_def
           split: sum.splits if_splits)

lemma checkStampSignature_flags:
  "structureValid (checkStampSignature recover stringify stamp sig st) = structureValid st"
  "signalsConsistent (checkStampSignature recover stringify stamp sig st) = signalsConsistent st"
  "signaturesValid (checkStampSignature recover stringify stamp sig st) \<Longrightarrow> signaturesValid st"
  by (auto simp: checkStampSignature_def tryStampSignature_def split: sum.splits if_splits)

lemma checkStampSignature_details:
  "k \<notin> {''stampSignatureMismatch'', ''stampSignatureError''}
   \<Longrightarrow> details (checkStampSignature recover stringify stamp sig st) k = details st k"
  by (auto simp: checkStampSignature_def tryStampSignature_def split: sum.splits if_splits)

lemma checkStampSignature_dom:
  "dom (details st) \<subseteq> dom (details (checkStampSignature recover stringify stamp sig st))"
  by (auto simp: checkStampSignature_def tryStampSignature_def split: sum.splits if_splits)

lemma loop_flags:
  "structureValid (fold (checkStampSignature recover stringify stamp) sigs st) = structureValid st"
  "signalsConsistent (fold (checkStampSignature recover stringify stamp) sigs st)
     = signalsConsistent st"
  by (induction sigs arbitrary: st) (simp_all add: checkStampSignature_flags)

lemma loop_signaturesValid:
  "signaturesValid (fold (checkStampSignature recover stringify stamp) sigs st)
   \<Longrightarrow> signaturesValid st"
  by (induction sigs arbitrary: st) (auto dest: checkStampSignature_flags(3))

lemma loop_details:
  "k \<notin> {''stampSignatureMismatch'', ''stampSignatureError''}
   \<Longrightarrow> details (fold (checkStampSignature recover stringify stamp) sigs st) k = details st k"
  by (induction sigs arbitrary: st) (simp_all add: checkStampSignature_details)

lemma loop_dom:
  "dom (details st) \<subseteq> dom (details (fold (checkStampSignature recover stringify stamp) sigs st))"
proof (induction sigs arbitrary: st)
  case Nil
  then show ?case by simp
next
  case (Cons sig sigs)
  have "dom (details st) \<subseteq> dom (details (checkStampSignature recover stringify stamp sig st))"
    by (rule checkStampSignature_dom)
  also have "\<dots> \<subseteq> dom (details (fold (checkStampSignature recover stringify stamp) sigs
                 (checkStampSignature recover stringify stamp sig st)))"
    by (rule Cons.IH)
  finally show ?case by simp
qed

lemma checkStampSignatures_flags:
  "structureValid (checkStampSignatures recover stringify stamp cr st) = structureValid st"
  "signalsConsistent (checkStampSignatures recover stringify stamp cr st) = signalsConsistent st"
  by (simp_all add: checkStampSignatures_def loop_flags checkStampSignature_flags
        split: option.splits list.splits)

lemma checkStampSignatures_signaturesValid:
  "signaturesValid (checkStampSignatures recover stringify stamp cr st) \<Longrightarrow> signaturesValid st"
  by (auto simp: checkStampSignatures_def
        dest: loop_signaturesValid checkStampSignature_flags(3)
        split: option.splits list.splits if_splits)

lemma checkStampSignatures_details:
  "k \<notin> {''stampSignatureMismatch'', ''stampSignatureError'', ''noSignatures''}
   \<Longrightarrow> details (checkStampSignatures recover stringify stamp cr st) k = details st k"
  by (simp add: checkStampSignatures_def loop_details checkStampSignature_details
        split: option.splits list.splits)

lemma checkStampSignatures_dom:
  "dom (details st) \<subseteq> dom (details (checkStampSignatures recover stringify stamp cr st))"
proof (cases "signatures stamp")
  case None
  then show ?thesis by (auto simp: checkStampSignatures_def)
next
  case (Some sigs)
  show ?thesis
  proof (cases sigs)
    case Nil
    with Some show ?thesis by (auto simp: checkStampSignatures_def)
  next
    case (Cons sig rest)
    with Some show ?thesis
      using loop_dom [of st recover stringify stamp "sig # rest"]
      by (simp add: checkStampSignatures_def)
  qed
qed

lemma rangesChecked_flags:
  "signaturesValid (rangesChecked loc st) = signaturesValid st"
  "structureValid (rangesChecked loc st) = structureValid st"
  by (simp_all add: rangesChecked_def checkRanges_def Let_def split: option.splits)

lemma rangesChecked_details:
  "k \<notin> {''invalidLongitude'', ''invalidLatitude''}
   \<Longrightarrow> details (rangesChecked loc st) k = details st k"
  by (simp add: rangesChecked_def checkRanges_def Let_def split: option.splits)

lemma rangesChecked_dom: "dom (details st) \<subseteq> dom (details (rangesChecked loc st))"
  by (auto simp: rangesChecked_def checkRanges_def Let_def split: option.splits if_splits)

lemma noteChallengeFailed_flags:
  "signaturesValid (noteChallengeFailed stamp st) = signaturesValid st"
  "structureValid (noteChallengeFailed stamp st) = structureValid st"
  "signalsConsistent (noteChallengeFailed stamp st) = signalsConsistent st"
  by (simp_all add: noteChallengeFailed_def)

lemma noteChallengeFailed_details:
  "k \<noteq> ''challengeFailed'' \<Longrightarrow> details (noteChallengeFailed stamp st) k = details st k"
  by (simp add: noteChallengeFailed_def)

lemma noteChallengeFailed_dom: "dom (details st) \<subseteq> dom (details (noteChallengeFailed stamp st))"
  by (auto simp: noteChallengeFailed_def)

lemma afterConsolidated_flags:
  "signaturesValid (afterConsolidated stamp st) = signaturesValid st"
  "structureValid (afterConsolidated stamp st) = structureValid st"
  by (simp_all add: afterConsolidated_def)

lemma afterConsolidated_details:
  "k \<noteq> ''invalidConsolidatedResult'' \<Longrightarrow> details (afterConsolidated stamp st) k = details st k"
  by (simp add: afterConsolidated_def)

lemma afterConsolidated_dom: "dom (details st) \<subseteq> dom (details (afterConsolidated stamp st))"
  by (auto simp: afterConsolidated_def)

lemma verify_eq:
  "locationReadable (location stamp) \<Longrightarrow>
   verifyWitnessChainStamp recover stringify stamp =
     Inr \<lparr>signaturesValid = signaturesValid (finalChecks recover stringify stamp),
          structureValid = structureValid (finalChecks recover stringify stamp),
          signalsConsistent = signalsConsistent (finalChecks recover stringify stamp),
          details = details (finalChecks recover stringify stamp),
          valid = (signaturesValid (finalChecks recover stringify stamp)
                   \<and> structureValid (finalChecks recover stringify stamp)
                   \<and> signalsConsistent (finalChecks recover stringify stamp))\<rparr>"
  by (simp add: verify_returns finalChecks_def Let_def)

text \<open>What the checks after the challenge signature keep.\<close>

lemma later_signaturesValid:
  "signaturesValid (finalChecks recover stringify stamp)
   \<Longrightarrow> signaturesValid (checkStampSignatures recover stringify stamp
          (signal stamp ''challengeResult'')
          (checkChallengeSignature recover (signal stamp ''challengeResult'')
             (checkStructure stamp initialChecks)))"
  by (simp add: finalChecks_def checksBeforeConsolidated_def checksBeforeCoordinates_def Let_def afterConsolidated_flags
        noteChallengeFailed_flags rangesChecked_flags)

lemma later_details:
  "k \<notin> {''invalidLongitude'', ''invalidLatitude'', ''challengeFailed'',
          ''invalidConsolidatedResult''}
   \<Longrightarrow> details (finalChecks recover stringify stamp) k
       = details (checkStampSignatures recover stringify stamp
          (signal stamp ''challengeResult'')
          (checkChallengeSignature recover (signal stamp ''challengeResult'')
             (checkStructure stamp initialChecks))) k"
  by (simp add: finalChecks_def checksBeforeConsolidated_def checksBeforeCoordinates_def Let_def afterConsolidated_details
        noteChallengeFailed_details rangesChecked_details)

lemma challenge_throw_recorded:
  assumes "truthy (signal stamp ''challengeResult'')"
    and "recover (readMember (signal stamp ''challengeResult'') ''message'')
           (readMember (signal stamp ''challengeResult'') ''signature'') = Inl e"
  shows "\<not> signaturesValid (finalChecks recover stringify stamp)"
    and "details (finalChecks recover stringify stamp) ''challengeSignatureError''
          = Some (JStr (errorMessage e))"
proof -
  let ?cr = "signal stamp ''challengeResult''"
  let ?st1 = "checkStructure stamp initialChecks"
  have st2: "checkChallengeSignature recover ?cr ?st1
      = setDetail ''challengeSignatureError'' (JStr (errorMessage e))
          (?st1\<lparr>signaturesValid := False\<rparr>)"
    using assms by (simp add: checkChallengeSignature_def tryChallengeSignature_throws)
  show "\<not> signaturesValid (finalChecks recover stringify stamp)"
  proof
    assume "signaturesValid (finalChecks recover stringify stamp)"
    then have "signaturesValid (checkChallengeSignature recover ?cr ?st1)"
      by (blast dest: later_signaturesValid checkStampSignatures_signaturesValid)
    then show False by (simp add: st2)
  qed
  show "details (finalChecks recover stringify stamp) ''challengeSignatureError''
          = Some (JStr (errorMessage e))"
    by (simp add: later_details checkStampSignatures_details st2)
qed

lemma challenge_mismatch_recorded:
  assumes "truthy (signal stamp ''challengeResult'')"
    and "recover (readMember (signal stamp ''challengeResult'') ''message'')
           (readMember (signal stamp ''challengeResult'') ''signature'') = Inr recovered"
    and "callToLowerCase (readMember (signal stamp ''challengeResult'') ''challenger'')
           = Inr expected"
    and "toLowerCase recovered \<noteq> expected"
  shows "\<not> signaturesValid (finalChecks recover stringify stamp)"
    and "details (finalChecks recover stringify stamp) ''challengeSignatureMismatch''
          = Some (JObj [(''expected'', readMember (signal stamp ''challengeResult'') ''challenger''),
                        (''recovered'', JStr recovered)])"
proof -
  let ?cr = "signal stamp ''challengeResult''"
  let ?st1 = "checkStructure stamp initialChecks"
  have st2: "checkChallengeSignature recover ?cr ?st1
      = setDetail ''challengeSignatureMismatch''
          (JObj [(''expected'', readMember ?cr ''challenger''), (''recovered'', JStr recovered)])
          (?st1\<lparr>signaturesValid := False\<rparr>)"
    using assms by (simp add: checkChallengeSignature_def tryChallengeSignature_mismatch)
  show "\<not> signaturesValid (finalChecks recover stringify stamp)"
  proof
    assume "signaturesValid (finalChecks recover stringify stamp)"
    then have "signaturesValid (checkChallengeSignature recover ?cr ?st1)"
      by (blast dest: later_signaturesValid checkStampSignatures_signaturesValid)
    then show False by (simp add: st2)
  qed
  show "details (finalChecks recover stringify stamp) ''challengeSignatureMismatch''
          = Some (JObj [(''expected'', readMember ?cr ''challenger''),
                        (''recovered'', JStr recovered)])"
    by (simp add: later_details checkStampSignatures_details st2)
qed

text \<open>The loop: one offending signature is enough, wherever it stands.\<close>

lemma loop_throw_recorded:
  assumes "sig \<in> set sigs"
    and "\<And>st. tryStampSignature recover stringify stamp sig st = Inl e"
  shows "\<not> signaturesValid (fold (checkStampSignature recover stringify stamp) sigs st)
         \<and> ''stampSignatureError''
             \<in> dom (details (fold (checkStampSignature recover stringify stamp) sigs st))"
  using assms(1)
proof (induction sigs arbitrary: st)
  case Nil
  then show ?case by simp
next
  case (Cons x xs)
  show ?case
  proof (cases "sig \<in> set xs")
    case True
    then show ?thesis using Cons.IH by simp
  next
    case False
    with Cons.prems have x: "x = sig" by simp
    let ?st' = "checkStampSignature recover stringify stamp sig st"
    have a: "\<not> signaturesValid ?st'" and b: "''stampSignatureError'' \<in> dom (details ?st')"
      by (simp_all add: checkStampSignature_def assms(2))
    have "\<not> signaturesValid (fold (checkStampSignature recover stringify stamp) xs ?st')"
      using a loop_signaturesValid by blast
    moreover have "''stampSignatureError''
        \<in> dom (details (fold (checkStampSignature recover stringify stamp) xs ?st'))"
      using b loop_dom [of ?st' recover stringify stamp xs] by blast
    ultimately show ?thesis by (simp add: x)
  qed
qed

lemma loop_mismatch_recorded:
  assumes "sig \<in> set sigs"
    and "\<And>st. tryStampSignature recover stringify stamp sig st
           = Inr (setDetail ''stampSignatureMismatch'' v (st\<lparr>signaturesValid := False\<rparr>))"
  shows "\<not> signaturesValid (fold (checkStampSignature recover stringify stamp) sigs st)
         \<and> ''stampSignatureMismatch''
             \<in> dom (details (fold (checkStampSignature recover stringify stamp) sigs st))"
  using assms(1)
proof (induction sigs arbitrary: st)
  case Nil
  then show ?case by simp
next
  case (Cons x xs)
  show ?case
  proof (cases "sig \<in> set xs")
    case True
    then show ?thesis using Cons.IH by simp
  next
    case False
    with Cons.prems have x: "x = sig" by simp
    let ?st' = "checkStampSignature recover stringify stamp sig st"
    have a: "\<not> signaturesValid ?st'" and b: "''stampSignatureMismatch'' \<in> dom (details ?st')"
      by (simp_all add: checkStampSignature_def assms(2))
    have "\<not> signaturesValid (fold (checkStampSignature recover stringify stamp) xs ?st')"
      using a loop_signaturesValid by blast
    moreover have "''stampSignatureMismatch''
        \<in> dom (details (fold (checkStampSignature recover stringify stamp) xs ?st'))"
      using b loop_dom [of ?st' recover stringify stamp xs] by blast
    ultimately show ?thesis by (simp add: x)
  qed
qed

lemma checkStampSignatures_loop:
  "signatures stamp = Some sigs \<Longrightarrow> sig \<in> set sigs
   \<Longrightarrow> checkStampSignatures recover stringify stamp cr st
       = fold (checkStampSignature recover stringify stamp) sigs st"
  by (cases sigs) (simp_all add: checkStampSignatures_def)

lemma wrapper_throw_recorded:
  assumes "signatures stamp = Some sigs" and "sig \<in> set sigs"
    and "stringify (stamp\<lparr>signatures := None\<rparr>) = Inr m"
    and "recover (JStr m) (JStr (sigValue sig)) = Inl e"
  shows "\<not> signaturesValid (finalChecks recover stringify stamp)"
    and "''stampSignatureError'' \<in> dom (details (finalChecks recover stringify stamp))"
proof -
  let ?st2 = "checkChallengeSignature recover (signal stamp ''challengeResult'')
             (checkStructure stamp initialChecks)"
  have t: "\<And>st. tryStampSignature recover stringify stamp sig st = Inl e"
    using assms(3,4) by (simp add: tryStampSignature_def)
  have l: "\<not> signaturesValid (fold (checkStampSignature recover stringify stamp) sigs ?st2)
         \<and> ''stampSignatureError''
             \<in> dom (details (fold (checkStampSignature recover stringify stamp) sigs ?st2))"
    by (rule loop_throw_recorded [OF assms(2) t])
  show "\<not> signaturesValid (finalChecks recover stringify stamp)"
    using l later_signaturesValid [of recover stringify stamp]
    by (auto simp: checkStampSignatures_loop [OF assms(1,2)])
  show "''stampSignatureError'' \<in> dom (details (finalChecks recover stringify stamp))"
    using l by (simp add: dom_def later_details checkStampSignatures_loop [OF assms(1,2)])
qed

lemma wrapper_mismatch_recorded:
  assumes "signatures stamp = Some sigs" and "sig \<in> set sigs"
    and "stringify (stamp\<lparr>signatures := None\<rparr>) = Inr m"
    and "recover (JStr m) (JStr (sigValue sig)) = Inr recovered"
    and "toLowerCase recovered \<noteq> toLowerCase (subjectValue (signer sig))"
  shows "\<not> signaturesValid (finalChecks recover stringify stamp)"
    and "''stampSignatureMismatch'' \<in> dom (details (finalChecks recover stringify stamp))"
proof -
  let ?st2 = "checkChallengeSignature recover (signal stamp ''challengeResult'')
             (checkStructure stamp initialChecks)"
  let ?v = "JObj [(''expected'', JStr (subjectValue (signer sig))), (''recovered'', JStr recovered)]"
  have t: "\<And>st. tryStampSignature recover stringify stamp sig st
            = Inr (setDetail ''stampSignatureMismatch'' ?v (st\<lparr>signaturesValid := False\<rparr>))"
    using assms(3,4,5) by (simp add: tryStampSignature_def)
  have l: "\<not> signaturesValid (fold (checkStampSignature recover stringify stamp) sigs ?st2)
         \<and> ''stampSignatureMismatch''
             \<in> dom (details (fold (checkStampSignature recover stringify stamp) sigs ?st2))"
    by (rule loop_mismatch_recorded [OF assms(2) t])
  show "\<not> signaturesValid (finalChecks recover stringify stamp)"
    using l later_signaturesValid [of recover stringify stamp]
    by (auto simp: checkStampSignatures_loop [OF assms(1,2)])
  show "''stampSignatureMismatch'' \<in> dom (details (finalChecks recover stringify stamp))"
    using l by (simp add: dom_def later_details checkStampSignatures_loop [OF assms(1,2)])
qed

text \<open>The two other flags do not depend on the recovery or on the serializer.\<close>

lemma structureValid_final:
  "structureValid (finalChecks recover stringify stamp)
     = structureValid (checkStructure stamp initialChecks)"
  by (simp add: finalChecks_def checksBeforeConsolidated_def checksBeforeCoordinates_def Let_def afterConsolidated_flags
        noteChallengeFailed_flags rangesChecked_flags checkStampSignatures_flags
        checkChallengeSignature_flags)

lemma rangesChecked_signalsConsistent:
  "signalsConsistent (rangesChecked loc st)
     = signalsConsistent (rangesChecked loc (st\<lparr>details := d, signaturesValid := a,
          structureValid := b\<rparr>))"
  by (simp add: rangesChecked_def checkRanges_def Let_def split: option.splits)

lemma signalsConsistent_final:
  "signalsConsistent (finalChecks recover stringify stamp)
     = signalsConsistent (afterConsolidated stamp (rangesChecked (location stamp) initialChecks))"
proof -
  let ?st3 = "checkStampSignatures recover stringify stamp (signal stamp ''challengeResult'')
          (checkChallengeSignature recover (signal stamp ''challengeResult'')
             (checkStructure stamp initialChecks))"
  have c: "signalsConsistent ?st3 = True"
    by (simp add: checkStampSignatures_flags checkChallengeSignature_flags checkStructure_frame
          initialChecks_def)
  have "signalsConsistent (rangesChecked (location stamp) ?st3)
        = signalsConsistent (rangesChecked (location stamp) initialChecks)"
    using c by (simp add: rangesChecked_def checkRanges_def Let_def initialChecks_def split: option.splits)
  then show ?thesis
    by (simp add: finalChecks_def checksBeforeConsolidated_def checksBeforeCoordinates_def Let_def afterConsolidated_def
          noteChallengeFailed_flags)
qed

text \<open>
  What the verifier does with errors of the signature checks, on every stamp whose location
  it can read, with every recovery capability and every serializer: it returns a result
  and does not throw. When the recovery of the embedded challenge
  signature throws, \<open>signaturesValid\<close> is false and the message is recorded under
  \<open>challengeSignatureError\<close>; when the recovered identity differs from the declared
  challenger, \<open>signaturesValid\<close> is false and the pair is recorded under
  \<open>challengeSignatureMismatch\<close>. When the recovery throws, or recovers another identity,
  for any wrapper signature, \<open>signaturesValid\<close> is false and a diagnostic is recorded
  under \<open>stampSignatureError\<close>, respectively \<open>stampSignatureMismatch\<close>. The other two
  checks are evaluated all the same: \<open>structureValid\<close> and \<open>signalsConsistent\<close> are what
  they are with any other recovery and serializer.
\<close>

lemma verify_records_errors:
  assumes readable: "locationReadable (location stamp)"
  shows
  "\<exists>r. verifyWitnessChainStamp recover stringify stamp = Inr r
     \<and> valid r = (signaturesValid r \<and> structureValid r \<and> signalsConsistent r)
     \<and> (\<forall>e. truthy (signal stamp ''challengeResult'')
            \<and> recover (readMember (signal stamp ''challengeResult'') ''message'')
                 (readMember (signal stamp ''challengeResult'') ''signature'') = Inl e
          \<longrightarrow> \<not> signaturesValid r
              \<and> details r ''challengeSignatureError'' = Some (JStr (errorMessage e)))
     \<and> (\<forall>recovered expected.
            truthy (signal stamp ''challengeResult'')
            \<and> recover (readMember (signal stamp ''challengeResult'') ''message'')
                 (readMember (signal stamp ''challengeResult'') ''signature'') = Inr recovered
            \<and> callToLowerCase (readMember (signal stamp ''challengeResult'') ''challenger'')
                 = Inr expected
            \<and> toLowerCase recovered \<noteq> expected
          \<longrightarrow> \<not> signaturesValid r
              \<and> details r ''challengeSignatureMismatch''
                  = Some (JObj [(''expected'',
                                   readMember (signal stamp ''challengeResult'') ''challenger''),
                                (''recovered'', JStr recovered)]))
     \<and> (\<forall>sigs sig m e.
            signatures stamp = Some sigs \<and> sig \<in> set sigs
            \<and> stringify (stamp\<lparr>signatures := None\<rparr>) = Inr m
            \<and> recover (JStr m) (JStr (sigValue sig)) = Inl e
          \<longrightarrow> \<not> signaturesValid r \<and> ''stampSignatureError'' \<in> dom (details r))
     \<and> (\<forall>sigs sig m recovered.
            signatures stamp = Some sigs \<and> sig \<in> set sigs
            \<and> stringify (stamp\<lparr>signatures := None\<rparr>) = Inr m
            \<and> recover (JStr m) (JStr (sigValue sig)) = Inr recovered
            \<and> toLowerCase recovered \<noteq> toLowerCase (subjectValue (signer sig))
          \<longrightarrow> \<not> signaturesValid r \<and> ''stampSignatureMismatch'' \<in> dom (details r))
     \<and> (\<forall>recover' stringify' r'.
            verifyWitnessChainStamp recover' stringify' stamp = Inr r'
          \<longrightarrow> structureValid r' = structureValid r
              \<and> signalsConsistent r' = signalsConsistent r)"
proof -
  let ?f = "finalChecks recover stringify stamp"
  let ?r = "\<lparr>signaturesValid = signaturesValid ?f, structureValid = structureValid ?f,
            signalsConsistent = signalsConsistent ?f, details = details ?f,
            valid = (signaturesValid ?f \<and> structureValid ?f \<and> signalsConsistent ?f)\<rparr>"
  have ret: "verifyWitnessChainStamp recover stringify stamp = Inr ?r"
    by (rule verify_eq [OF readable])
  have sel: "signaturesValid ?r = signaturesValid ?f" "structureValid ?r = structureValid ?f"
    "signalsConsistent ?r = signalsConsistent ?f" "details ?r = details ?f"
    "valid ?r = (signaturesValid ?f \<and> structureValid ?f \<and> signalsConsistent ?f)"
    by simp_all
  have other: "structureValid r' = structureValid ?r \<and> signalsConsistent r' = signalsConsistent ?r"
    if "verifyWitnessChainStamp recover' stringify' stamp = Inr r'" for recover' stringify' r'
  proof -
    from that verify_eq [OF readable, of recover' stringify']
    have "structureValid r' = structureValid (finalChecks recover' stringify' stamp)"
      and "signalsConsistent r' = signalsConsistent (finalChecks recover' stringify' stamp)"
      by auto
    then show ?thesis
      by (simp add: structureValid_final signalsConsistent_final)
  qed
  have "valid ?r = (signaturesValid ?r \<and> structureValid ?r \<and> signalsConsistent ?r)"
    by simp
  moreover have "\<forall>e. truthy (signal stamp ''challengeResult'')
            \<and> recover (readMember (signal stamp ''challengeResult'') ''message'')
                 (readMember (signal stamp ''challengeResult'') ''signature'') = Inl e
          \<longrightarrow> \<not> signaturesValid ?r
              \<and> details ?r ''challengeSignatureError'' = Some (JStr (errorMessage e))"
    using challenge_throw_recorded [of stamp recover _ stringify] by (simp only: sel) blast
  moreover have "\<forall>recovered expected.
            truthy (signal stamp ''challengeResult'')
            \<and> recover (readMember (signal stamp ''challengeResult'') ''message'')
                 (readMember (signal stamp ''challengeResult'') ''signature'') = Inr recovered
            \<and> callToLowerCase (readMember (signal stamp ''challengeResult'') ''challenger'')
                 = Inr expected
            \<and> toLowerCase recovered \<noteq> expected
          \<longrightarrow> \<not> signaturesValid ?r
              \<and> details ?r ''challengeSignatureMismatch''
                  = Some (JObj [(''expected'',
                                   readMember (signal stamp ''challengeResult'') ''challenger''),
                                (''recovered'', JStr recovered)])"
    using challenge_mismatch_recorded [of stamp recover _ _ stringify] by (simp only: sel) blast
  moreover have "\<forall>sigs sig m e.
            signatures stamp = Some sigs \<and> sig \<in> set sigs
            \<and> stringify (stamp\<lparr>signatures := None\<rparr>) = Inr m
            \<and> recover (JStr m) (JStr (sigValue sig)) = Inl e
          \<longrightarrow> \<not> signaturesValid ?r \<and> ''stampSignatureError'' \<in> dom (details ?r)"
    using wrapper_throw_recorded [of stamp _ _ stringify _ recover] by (simp only: sel) blast
  moreover have "\<forall>sigs sig m recovered.
            signatures stamp = Some sigs \<and> sig \<in> set sigs
            \<and> stringify (stamp\<lparr>signatures := None\<rparr>) = Inr m
            \<and> recover (JStr m) (JStr (sigValue sig)) = Inr recovered
            \<and> toLowerCase recovered \<noteq> toLowerCase (subjectValue (signer sig))
          \<longrightarrow> \<not> signaturesValid ?r \<and> ''stampSignatureMismatch'' \<in> dom (details ?r)"
    using wrapper_mismatch_recorded [of stamp _ _ stringify _ recover] by (simp only: sel) blast
  moreover have "\<forall>recover' stringify' r'.
            verifyWitnessChainStamp recover' stringify' stamp = Inr r'
          \<longrightarrow> structureValid r' = structureValid ?r
              \<and> signalsConsistent r' = signalsConsistent ?r"
    using other by blast
  ultimately show ?thesis using ret by blast
qed

lemma verify_records_errors_example:
  "\<exists>r. verifyWitnessChainStamp failingRecovery fixedStringify signedExample = Inr r
       \<and> \<not> signaturesValid r
       \<and> details r ''challengeSignatureError'' = Some (JStr ''invalid signature'')
       \<and> ''stampSignatureError'' \<in> dom (details r)"
proof -
  have "locationReadable (location signedExample)"
    by (simp add: signedExample_def exampleStamp_def)
  from verify_records_errors [OF this, of failingRecovery fixedStringify]
  obtain r where r: "verifyWitnessChainStamp failingRecovery fixedStringify signedExample = Inr r"
    and ce: "\<forall>e. truthy (signal signedExample ''challengeResult'')
            \<and> failingRecovery (readMember (signal signedExample ''challengeResult'') ''message'')
                 (readMember (signal signedExample ''challengeResult'') ''signature'') = Inl e
          \<longrightarrow> \<not> signaturesValid r
              \<and> details r ''challengeSignatureError'' = Some (JStr (errorMessage e))"
    and we: "\<forall>sigs sig m e.
            signatures signedExample = Some sigs \<and> sig \<in> set sigs
            \<and> fixedStringify (signedExample\<lparr>signatures := None\<rparr>) = Inr m
            \<and> failingRecovery (JStr m) (JStr (sigValue sig)) = Inl e
          \<longrightarrow> \<not> signaturesValid r \<and> ''stampSignatureError'' \<in> dom (details r)"
    by (elim exE conjE)
  have t: "truthy (signal signedExample ''challengeResult'')"
    by (simp add: signedExample_def exampleStamp_def exampleChallenge_def signal_def)
  have "failingRecovery (readMember (signal signedExample ''challengeResult'') ''message'')
          (readMember (signal signedExample ''challengeResult'') ''signature'')
        = Inl (Error ''invalid signature'')"
    by (simp add: failingRecovery_def)
  with ce t have a: "\<not> signaturesValid r
      \<and> details r ''challengeSignatureError'' = Some (JStr (errorMessage (Error ''invalid signature'')))"
    by blast
  have "signatures signedExample = Some [exampleSignature ''0xABCD'']
        \<and> exampleSignature ''0xABCD'' \<in> set [exampleSignature ''0xABCD'']
        \<and> fixedStringify (signedExample\<lparr>signatures := None\<rparr>) = Inr ''{}''
        \<and> failingRecovery (JStr ''{}'') (JStr (sigValue (exampleSignature ''0xABCD'')))
            = Inl (Error ''invalid signature'')"
    by (simp add: signedExample_def fixedStringify_def failingRecovery_def)
  with we have b: "''stampSignatureError'' \<in> dom (details r)"
    by blast
  from r a b show ?thesis by simp
qed

text \<open>
  C4. The verifier throws on a stamp whose location is \<^verbatim>\<open>null\<close>, with every recovery
  capability and every serializer: line 117 applies the operator \<^verbatim>\<open>in\<close> to the location
  outside every \<^verbatim>\<open>try\<close>, after \<^verbatim>\<open>typeof\<close> has taken \<^verbatim>\<open>null\<close> for an object. The structure
  check of line 42 has recorded the same location as a missing field just before.
\<close>

theorem verify_throws_on_null_location:
  "verifyWitnessChainStamp recover stringify nullLocationStamp
     = Inl (TypeError ''Cannot use 'in' operator to search for 'coordinates' in null'')
   \<and> details (checkStructure nullLocationStamp initialChecks) ''missingFields''
       = Some (JBool True)"
  by (simp add: verifyWitnessChainStamp_def checkCoordinates_def checkStructure_def Let_def
        nullLocationStamp_def exampleStamp_def signal_def)

theorem verify_throws_on_null_location_witness:
  "verifyWitnessChainStamp failingRecovery fixedStringify nullLocationStamp
     = Inl (TypeError ''Cannot use 'in' operator to search for 'coordinates' in null'')"
  by (rule conjunct1 [OF verify_throws_on_null_location])

text \<open>
  C5. For every stamp whose signals carry no embedded challenge result and whose
  signature sequence is absent or empty, the verifier reports \<open>signaturesValid = false\<close>
  and records \<open>noSignatures = true\<close>; the stamp is not valid. This holds of every result
  that the verifier returns, and it returns one for every location that it can read; on
  the two others it throws after this branch, and so returns no result at all.
\<close>

theorem verify_nothing_to_verify:
  assumes "\<not> truthy (signal stamp ''challengeResult'')"
    and "signatures stamp = None \<or> signatures stamp = Some []"
  shows "(\<forall>r. verifyWitnessChainStamp recover stringify stamp = Inr r
             \<longrightarrow> \<not> signaturesValid r
                 \<and> details r ''noSignatures'' = Some (JBool True)
                 \<and> \<not> valid r)
         \<and> (locationReadable (location stamp)
             \<longrightarrow> (\<exists>r. verifyWitnessChainStamp recover stringify stamp = Inr r))"
proof (cases "locationReadable (location stamp)")
  case False
  from verify_throws [OF this, of recover stringify] False
  show ?thesis by auto
next
  case True
  let ?cr = "signal stamp ''challengeResult''"
  let ?st2 = "checkChallengeSignature recover ?cr (checkStructure stamp initialChecks)"
  let ?f = "finalChecks recover stringify stamp"
  have st3: "checkStampSignatures recover stringify stamp ?cr ?st2
      = setDetail ''noSignatures'' (JBool True) (?st2\<lparr>signaturesValid := False\<rparr>)"
    using assms by (auto simp: checkStampSignatures_def)
  have a: "\<not> signaturesValid ?f"
  proof
    assume "signaturesValid ?f"
    then have "signaturesValid (checkStampSignatures recover stringify stamp ?cr ?st2)"
      by (rule later_signaturesValid)
    then show False by (simp add: st3)
  qed
  have b: "details ?f ''noSignatures'' = Some (JBool True)"
    by (simp add: later_details st3)
  show ?thesis
    using a b True by (simp add: verify_eq)
qed

theorem verify_nothing_to_verify_witness:
  "\<not> truthy (signal exampleStamp ''challengeResult'')
   \<and> signatures exampleStamp = None
   \<and> (\<exists>r. verifyWitnessChainStamp (fixedRecovery ''0xABCD'') fixedStringify exampleStamp = Inr r
           \<and> \<not> signaturesValid r
           \<and> details r ''noSignatures'' = Some (JBool True)
           \<and> \<not> valid r)"
proof -
  have h1: "\<not> truthy (signal exampleStamp ''challengeResult'')"
    by (simp add: exampleStamp_def signal_def)
  have h2: "signatures exampleStamp = None \<or> signatures exampleStamp = Some []"
    by (simp add: exampleStamp_def)
  have h3: "signatures exampleStamp = None"
    by (simp add: exampleStamp_def)
  have h4: "locationReadable (location exampleStamp)"
    by (simp add: exampleStamp_def)
  from verify_nothing_to_verify [OF h1 h2, of "fixedRecovery ''0xABCD''" fixedStringify] h1 h3 h4
  show ?thesis by blast
qed

lemma details_before_coordinates:
  "k \<in> {''invalidLongitude'', ''invalidLatitude''} \<Longrightarrow>
   details (checkStampSignatures recover stringify stamp cr
      (checkChallengeSignature recover cr (checkStructure stamp initialChecks))) k = None"
  by (auto simp: checkStampSignatures_details checkChallengeSignature_details
        checkStructure_details initialChecks_def)

text \<open>
  C10. For every stamp whose location is not an object with an array of coordinates (a
  string identifier, for one), the verifier checks no range: it records neither
  \<open>invalidLongitude\<close> nor \<open>invalidLatitude\<close>, and \<open>signalsConsistent\<close> is decided by the
  consolidated result alone, so it is true when there is none. This holds of every result
  that the verifier returns, and it returns one for every location that it can read, a
  string identifier and an object without a \<open>coordinates\<close> member among them; on the two
  others it throws, and so returns no result at all.
\<close>

theorem verify_skips_range_check:
  assumes "coordinatesOf (location stamp) = None"
  shows "(\<forall>r. verifyWitnessChainStamp recover stringify stamp = Inr r
             \<longrightarrow> details r ''invalidLongitude'' = None
                 \<and> details r ''invalidLatitude'' = None
                 \<and> signalsConsistent r
                     = (\<not> (truthy (signal stamp ''consolidatedResult'')
                           \<and> notBoolean
                                (readMember (signal stamp ''consolidatedResult'') ''KnowLoc''))))
         \<and> (locationReadable (location stamp)
             \<longrightarrow> (\<exists>r. verifyWitnessChainStamp recover stringify stamp = Inr r))"
proof (cases "locationReadable (location stamp)")
  case False
  from verify_throws [OF this, of recover stringify] False
  show ?thesis by auto
next
  case True
  let ?f = "finalChecks recover stringify stamp"
  have c: "rangesChecked (location stamp) st = st" for st
    using assms by (simp add: rangesChecked_def checkRanges_def)
  have a: "details ?f k = None" if "k \<in> {''invalidLongitude'', ''invalidLatitude''}" for k
  proof -
    have "details ?f k
        = details (checkStampSignatures recover stringify stamp (signal stamp ''challengeResult'')
            (checkChallengeSignature recover (signal stamp ''challengeResult'')
               (checkStructure stamp initialChecks))) k"
      using that
      by (auto simp: finalChecks_def checksBeforeConsolidated_def checksBeforeCoordinates_def Let_def c
            afterConsolidated_details noteChallengeFailed_details)
    then show ?thesis using details_before_coordinates [OF that] by simp
  qed
  have b: "signalsConsistent ?f
      = (\<not> (truthy (signal stamp ''consolidatedResult'')
            \<and> notBoolean (readMember (signal stamp ''consolidatedResult'') ''KnowLoc'')))"
    by (simp add: signalsConsistent_final c afterConsolidated_def initialChecks_def)
  show ?thesis
    using a [of "''invalidLongitude''"] a [of "''invalidLatitude''"] b True
    by (simp add: verify_eq)
qed

theorem verify_skips_range_check_witness:
  "coordinatesOf (location textStamp) = None
   \<and> (\<exists>r. verifyWitnessChainStamp (fixedRecovery ''0xABCD'') fixedStringify textStamp = Inr r
           \<and> details r ''invalidLongitude'' = None
           \<and> details r ''invalidLatitude'' = None
           \<and> signalsConsistent r)"
proof -
  have h: "coordinatesOf (location textStamp) = None"
    by (simp add: textStamp_def)
  have c: "\<not> truthy (signal textStamp ''consolidatedResult'')"
    by (simp add: textStamp_def exampleStamp_def signal_def)
  have r: "locationReadable (location textStamp)"
    by (simp add: textStamp_def)
  from verify_skips_range_check [OF h, of "fixedRecovery ''0xABCD''" fixedStringify] c h r
  show ?thesis by auto
qed

section \<open>Verification: the keys of the diagnostics\<close>

lemma last_statesAfter: "last (st # statesAfter f xs st) = fold f xs st"
  by (induction xs arbitrary: st) simp_all

lemma verifyTrace_last:
  "locationReadable (location stamp) \<Longrightarrow>
   last (verifyTrace recover stringify stamp) = finalChecks recover stringify stamp"
  by (simp add: verifyTrace_def checkCoordinates_readable finalChecks_def
        checksBeforeConsolidated_def checksBeforeCoordinates_def Let_def)

lemma keepsDetails_refl: "keepsDetails st st"
  by (simp add: keepsDetails_def)

lemma keepsDetails_trans: "keepsDetails a b \<Longrightarrow> keepsDetails b c \<Longrightarrow> keepsDetails a c"
  unfolding keepsDetails_def by blast

lemma transp_keepsDetails: "transp keepsDetails"
  by (rule transpI) (rule keepsDetails_trans)

lemma keepsDetailsI:
  assumes "dom (details st) \<subseteq> dom (details st')"
    and "\<And>k. k \<in> W \<Longrightarrow> k \<notin> loopKeys \<Longrightarrow> details st k = None"
    and "\<And>k. k \<notin> W \<Longrightarrow> k \<notin> loopKeys \<Longrightarrow> details st' k = details st k"
  shows "keepsDetails st st'"
  unfolding keepsDetails_def
proof (intro conjI allI impI)
  show "dom (details st) \<subseteq> dom (details st')" by (rule assms(1))
next
  fix k v
  assume a: "k \<notin> loopKeys \<and> details st k = Some v"
  show "details st' k = Some v"
  proof (cases "k \<in> W")
    case True
    with a assms(2) show ?thesis by fastforce
  next
    case False
    with a assms(3) show ?thesis by simp
  qed
qed

lemma successively_statesAfter:
  assumes "\<And>x st. P st (f x st)"
  shows "successively P (st # statesAfter f xs st)"
  by (induction xs arbitrary: st) (simp_all add: assms)

lemma keepsDetails_turn:
  "keepsDetails st (checkStampSignature recover stringify stamp sig st)"
  by (rule keepsDetailsI [where W = "{}"])
     (simp_all add: checkStampSignature_dom checkStampSignature_details loopKeys_def)

text \<open>No check writes a key before the check that owns it.\<close>

lemma details_st1:
  "k \<notin> {''lpVersionError'', ''pluginMismatch'', ''missingFields'', ''missingChallengeData''}
   \<Longrightarrow> details (checkStructure stamp initialChecks) k = None"
  by (simp add: checkStructure_details initialChecks_def)

lemma details_st2:
  "k \<notin> {''lpVersionError'', ''pluginMismatch'', ''missingFields'', ''missingChallengeData'',
          ''challengeSignatureMismatch'', ''challengeSignerVerified'', ''recoveredAddress'',
          ''challengeSignatureError''}
   \<Longrightarrow> details (checkChallengeSignature recover cr (checkStructure stamp initialChecks)) k = None"
  by (simp add: checkChallengeSignature_details details_st1)

lemma details_st3:
  "k \<notin> {''lpVersionError'', ''pluginMismatch'', ''missingFields'', ''missingChallengeData'',
          ''challengeSignatureMismatch'', ''challengeSignerVerified'', ''recoveredAddress'',
          ''challengeSignatureError'', ''stampSignatureMismatch'', ''stampSignatureError'',
          ''noSignatures''}
   \<Longrightarrow> details (checkStampSignatures recover stringify stamp cr
          (checkChallengeSignature recover cr (checkStructure stamp initialChecks))) k = None"
  by (simp add: checkStampSignatures_details details_st2)

lemma keeps_01: "keepsDetails initialChecks (checkStructure stamp initialChecks)"
  by (simp add: keepsDetails_def initialChecks_def)

lemma keeps_12:
  "keepsDetails (checkStructure stamp initialChecks)
     (checkChallengeSignature recover cr (checkStructure stamp initialChecks))"
  by (rule keepsDetailsI [where W = "{''challengeSignatureMismatch'', ''challengeSignerVerified'',
        ''recoveredAddress'', ''challengeSignatureError''}"])
     (auto simp: checkChallengeSignature_dom checkChallengeSignature_details details_st1)

lemma keeps_23_else:
  "keepsDetails (checkChallengeSignature recover cr (checkStructure stamp initialChecks))
     (setDetail ''noSignatures'' (JBool True)
        ((checkChallengeSignature recover cr (checkStructure stamp initialChecks))
           \<lparr>signaturesValid := False\<rparr>))"
  by (rule keepsDetailsI [where W = "{''noSignatures''}"])
     (auto simp: details_st2)

lemma keeps_34:
  "keepsDetails
     (checkStampSignatures recover stringify stamp cr
        (checkChallengeSignature recover cr (checkStructure stamp initialChecks)))
     (rangesChecked loc
        (checkStampSignatures recover stringify stamp cr
           (checkChallengeSignature recover cr (checkStructure stamp initialChecks))))"
  by (rule keepsDetailsI [where W = "{''invalidLongitude'', ''invalidLatitude''}"])
     (auto simp: rangesChecked_dom rangesChecked_details details_st3)

lemma details_st4:
  "k \<notin> {''lpVersionError'', ''pluginMismatch'', ''missingFields'', ''missingChallengeData'',
          ''challengeSignatureMismatch'', ''challengeSignerVerified'', ''recoveredAddress'',
          ''challengeSignatureError'', ''stampSignatureMismatch'', ''stampSignatureError'',
          ''noSignatures'', ''invalidLongitude'', ''invalidLatitude''}
   \<Longrightarrow> details (rangesChecked loc
          (checkStampSignatures recover stringify stamp cr
             (checkChallengeSignature recover cr (checkStructure stamp initialChecks)))) k = None"
  by (simp add: rangesChecked_details details_st3)

lemma keeps_45:
  "keepsDetails
     (rangesChecked loc
        (checkStampSignatures recover stringify stamp cr
           (checkChallengeSignature recover cr (checkStructure stamp initialChecks))))
     (noteChallengeFailed stamp
        (rangesChecked loc
           (checkStampSignatures recover stringify stamp cr
              (checkChallengeSignature recover cr (checkStructure stamp initialChecks)))))"
  by (rule keepsDetailsI [where W = "{''challengeFailed''}"])
     (auto simp: noteChallengeFailed_dom noteChallengeFailed_details details_st4)

lemma keeps_56:
  "keepsDetails
     (noteChallengeFailed stamp
        (rangesChecked loc
           (checkStampSignatures recover stringify stamp cr
              (checkChallengeSignature recover cr (checkStructure stamp initialChecks)))))
     (afterConsolidated stamp
        (noteChallengeFailed stamp
           (rangesChecked loc
              (checkStampSignatures recover stringify stamp cr
                 (checkChallengeSignature recover cr (checkStructure stamp initialChecks))))))"
  by (rule keepsDetailsI [where W = "{''invalidConsolidatedResult''}"])
     (auto simp: afterConsolidated_dom afterConsolidated_details noteChallengeFailed_details
        details_st4)

lemma successively_verifyTrace:
  "successively keepsDetails (verifyTrace recover stringify stamp)"
proof -
  let ?cr = "signal stamp ''challengeResult''"
  let ?st1 = "checkStructure stamp initialChecks"
  let ?st2 = "checkChallengeSignature recover ?cr ?st1"
  let ?turns = "case signatures stamp of
                     None \<Rightarrow> []
                   | Some sigs \<Rightarrow>
                       statesAfter (checkStampSignature recover stringify stamp) sigs ?st2"
  let ?st3 = "checkStampSignatures recover stringify stamp ?cr ?st2"
  let ?st4 = "rangesChecked (location stamp) ?st3"
  let ?st5 = "noteChallengeFailed stamp ?st4"
  let ?st6 = "afterConsolidated stamp ?st5"
  have turns: "successively keepsDetails (?st2 # ?turns)"
    by (cases "signatures stamp") (simp_all add: successively_statesAfter keepsDetails_turn)
  let ?rest = "case checkCoordinates (location stamp) ?st3 of
                 Inl e \<Rightarrow> []
               | Inr st4 \<Rightarrow>
                   [st4, noteChallengeFailed stamp st4,
                    afterConsolidated stamp (noteChallengeFailed stamp st4)]"
  have tail: "successively keepsDetails (?st3 # ?rest)"
  proof (cases "locationReadable (location stamp)")
    case True
    then have "?rest = [?st4, ?st5, ?st6]"
      by (simp add: checkCoordinates_readable)
    then show ?thesis
      by (simp add: keeps_34 keeps_45 keeps_56)
  next
    case False
    from checkCoordinates_throws [OF this, of ?st3]
    obtain e where "checkCoordinates (location stamp) ?st3 = Inl (TypeError e)" by blast
    then show ?thesis by simp
  qed
  have link: "keepsDetails (last (?st2 # ?turns)) ?st3"
  proof (cases "signatures stamp")
    case None
    then show ?thesis
      by (simp add: checkStampSignatures_def keeps_23_else keepsDetails_refl)
  next
    case (Some sigs)
    show ?thesis
    proof (cases sigs)
      case Nil
      with Some show ?thesis
        by (simp add: checkStampSignatures_def keeps_23_else keepsDetails_refl)
    next
      case (Cons sig rest)
      have "last (?st2 # statesAfter (checkStampSignature recover stringify stamp) sigs ?st2)
            = fold (checkStampSignature recover stringify stamp) sigs ?st2"
        by (rule last_statesAfter)
      moreover have "?st3 = fold (checkStampSignature recover stringify stamp) sigs ?st2"
        using Some Cons by (simp add: checkStampSignatures_def)
      ultimately show ?thesis
        using Some by (simp only: option.case keepsDetails_refl)
    qed
  qed
  have "successively keepsDetails ((?st2 # ?turns) @ (?st3 # ?rest))"
    using turns tail link by (simp only: successively_append_iff) simp
  then have "successively keepsDetails
      (initialChecks # ?st1 # (?st2 # ?turns) @ (?st3 # ?rest))"
    using keeps_01 [of stamp] keeps_12 [of stamp recover ?cr] by simp
  then show ?thesis
    by (simp add: verifyTrace_def Let_def)
qed

lemma verifyTrace_keeps:
  assumes "i \<le> j" and "j < length (verifyTrace recover stringify stamp)"
  shows "keepsDetails (verifyTrace recover stringify stamp ! i)
           (verifyTrace recover stringify stamp ! j)"
proof (cases "i = j")
  case True
  then show ?thesis by (simp add: keepsDetails_refl)
next
  case False
  with assms have "i < j" by simp
  moreover have "sorted_wrt keepsDetails (verifyTrace recover stringify stamp)"
    using successively_verifyTrace successively_conv_sorted_wrt [OF transp_keepsDetails]
    by blast
  ultimately show ?thesis
    using assms(2) by (simp add: sorted_wrt_iff_nth_less)
qed

lemma lastOf_Cons:
  "lastOf (v # ys) = (case lastOf ys of None \<Rightarrow> Some v | Some w \<Rightarrow> Some w)"
  by (cases ys) (simp_all add: lastOf_def)

lemma turn_mismatch_value:
  "details (checkStampSignature recover stringify stamp sig st) ''stampSignatureMismatch''
     = (case mismatchOf recover stringify stamp sig of
          None \<Rightarrow> details st ''stampSignatureMismatch''
        | Some v \<Rightarrow> Some v)"
  by (simp add: checkStampSignature_def tryStampSignature_def mismatchOf_def split: sum.splits)

lemma loop_mismatch_value:
  "details (fold (checkStampSignature recover stringify stamp) sigs st) ''stampSignatureMismatch''
     = (case lastOf (List.map_filter (mismatchOf recover stringify stamp) sigs) of
          None \<Rightarrow> details st ''stampSignatureMismatch''
        | Some v \<Rightarrow> Some v)"
proof (induction sigs arbitrary: st)
  case Nil
  then show ?case by (simp add: lastOf_def List.map_filter_simps)
next
  case (Cons sig sigs)
  show ?case
    by (cases "mismatchOf recover stringify stamp sig")
       (simp_all add: Cons.IH turn_mismatch_value List.map_filter_simps lastOf_Cons
          split: option.splits)
qed

lemma final_mismatch_value:
  "details (finalChecks recover stringify stamp) ''stampSignatureMismatch''
     = lastOf (List.map_filter (mismatchOf recover stringify stamp) (signaturesOf stamp))"
proof -
  let ?cr = "signal stamp ''challengeResult''"
  let ?st2 = "checkChallengeSignature recover ?cr (checkStructure stamp initialChecks)"
  have none: "details ?st2 ''stampSignatureMismatch'' = None"
    by (simp add: details_st2)
  have "details (checkStampSignatures recover stringify stamp ?cr ?st2) ''stampSignatureMismatch''
        = lastOf (List.map_filter (mismatchOf recover stringify stamp) (signaturesOf stamp))"
  proof (cases "signatures stamp")
    case None
    then show ?thesis
      by (simp add: checkStampSignatures_def signaturesOf_def none lastOf_def
            List.map_filter_simps)
  next
    case (Some sigs)
    show ?thesis
    proof (cases sigs)
      case Nil
      with Some show ?thesis
        by (simp add: checkStampSignatures_def signaturesOf_def none lastOf_def
              List.map_filter_simps)
    next
      case (Cons sig rest)
      have "details (fold (checkStampSignature recover stringify stamp) sigs ?st2)
              ''stampSignatureMismatch''
            = lastOf (List.map_filter (mismatchOf recover stringify stamp) sigs)"
        by (simp add: loop_mismatch_value none split: option.splits)
      then show ?thesis
        using Some Cons by (simp add: checkStampSignatures_def signaturesOf_def)
    qed
  qed
  then show ?thesis by (simp add: later_details)
qed

lemma turn_throw_value:
  "details (checkStampSignature recover stringify stamp sig st) ''stampSignatureError''
     = (case throwOf recover stringify stamp sig of
          None \<Rightarrow> details st ''stampSignatureError''
        | Some v \<Rightarrow> Some v)"
  by (simp add: checkStampSignature_def tryStampSignature_def throwOf_def split: sum.splits)

lemma loop_throw_value:
  "details (fold (checkStampSignature recover stringify stamp) sigs st) ''stampSignatureError''
     = (case lastOf (List.map_filter (throwOf recover stringify stamp) sigs) of
          None \<Rightarrow> details st ''stampSignatureError''
        | Some v \<Rightarrow> Some v)"
proof (induction sigs arbitrary: st)
  case Nil
  then show ?case by (simp add: lastOf_def List.map_filter_simps)
next
  case (Cons sig sigs)
  show ?case
    by (cases "throwOf recover stringify stamp sig")
       (simp_all add: Cons.IH turn_throw_value List.map_filter_simps lastOf_Cons
          split: option.splits)
qed

lemma final_throw_value:
  "details (finalChecks recover stringify stamp) ''stampSignatureError''
     = lastOf (List.map_filter (throwOf recover stringify stamp) (signaturesOf stamp))"
proof -
  let ?cr = "signal stamp ''challengeResult''"
  let ?st2 = "checkChallengeSignature recover ?cr (checkStructure stamp initialChecks)"
  have none: "details ?st2 ''stampSignatureError'' = None"
    by (simp add: details_st2)
  have "details (checkStampSignatures recover stringify stamp ?cr ?st2) ''stampSignatureError''
        = lastOf (List.map_filter (throwOf recover stringify stamp) (signaturesOf stamp))"
  proof (cases "signatures stamp")
    case None
    then show ?thesis
      by (simp add: checkStampSignatures_def signaturesOf_def none lastOf_def
            List.map_filter_simps)
  next
    case (Some sigs)
    show ?thesis
    proof (cases sigs)
      case Nil
      with Some show ?thesis
        by (simp add: checkStampSignatures_def signaturesOf_def none lastOf_def
              List.map_filter_simps)
    next
      case (Cons sig rest)
      have "details (fold (checkStampSignature recover stringify stamp) sigs ?st2)
              ''stampSignatureError''
            = lastOf (List.map_filter (throwOf recover stringify stamp) sigs)"
        by (simp add: loop_throw_value none split: option.splits)
      then show ?thesis
        using Some Cons by (simp add: checkStampSignatures_def signaturesOf_def)
    qed
  qed
  then show ?thesis by (simp add: later_details)
qed

text \<open>
  C8, amended. Throughout one call of the verifier no key of \<open>details\<close> is removed, and no
  key other than \<open>stampSignatureMismatch\<close> and \<open>stampSignatureError\<close> is overwritten with
  another value: every later state of the call keeps them. The two keys of the loop are
  written by every offending wrapper signature in turn, so that the returned \<open>details\<close>
  hold under \<open>stampSignatureMismatch\<close> the pair of the last mismatching signature, and
  under \<open>stampSignatureError\<close> the message of the last signature whose check threw, and no
  other. The returned \<open>details\<close> are those of every result that the verifier returns, and
  it returns one for every location that it can read; on the two others the call ends
  with a throw, and its states up to there keep the keys as well.
\<close>

theorem verify_details_keep_keys:
  "(\<forall>i j. i \<le> j \<and> j < length (verifyTrace recover stringify stamp)
       \<longrightarrow> keepsDetails (verifyTrace recover stringify stamp ! i)
             (verifyTrace recover stringify stamp ! j))
   \<and> (\<forall>r. verifyWitnessChainStamp recover stringify stamp = Inr r
         \<longrightarrow> details r = details (last (verifyTrace recover stringify stamp))
             \<and> details r ''stampSignatureMismatch''
                 = lastOf (List.map_filter (mismatchOf recover stringify stamp)
                             (signaturesOf stamp))
             \<and> details r ''stampSignatureError''
                 = lastOf (List.map_filter (throwOf recover stringify stamp)
                             (signaturesOf stamp)))
   \<and> (locationReadable (location stamp)
       \<longrightarrow> (\<exists>r. verifyWitnessChainStamp recover stringify stamp = Inr r))"
proof (cases "locationReadable (location stamp)")
  case False
  from verify_throws [OF this, of recover stringify] False
    verifyTrace_keeps [of _ _ recover stringify stamp]
  show ?thesis by auto
next
  case True
  then show ?thesis
    using verifyTrace_keeps [of _ _ recover stringify stamp]
    by (simp add: verify_eq verifyTrace_last final_mismatch_value final_throw_value)
qed

lemmas verify_unfold =
  detailsOf_def verifyWitnessChainStamp_def checksBeforeCoordinates_def checkCoordinates_def
  checkConsolidated_def noteChallengeFailed_def checkRanges_def checkStampSignatures_def
  checkStampSignature_def
  tryStampSignature_def checkChallengeSignature_def checkStructure_def initialChecks_def
  setDetail_def signal_def elemAt_def Let_def

lemmas example_unfold =
  twiceSigned_def exampleStamp_def exampleSignature_def fixedRecovery_def fixedStringify_def
  toLowerCase_def lowerChar_def

text \<open>
  C8 as stated fails: with two wrapper signatures that both recover to a third identity,
  the pair of the first is written after the first turn and is overwritten by the pair
  of the second; the returned \<open>details\<close> hold this one key, with the second pair.
\<close>

theorem verify_details_overwritten:
  "details (verifyTrace (fixedRecovery ''0xCCCC'') fixedStringify twiceSigned ! 3)
       ''stampSignatureMismatch''
     = Some (JObj [(''expected'', JStr ''0xAAAA''), (''recovered'', JStr ''0xCCCC'')])
   \<and> detailsOf (verifyWitnessChainStamp (fixedRecovery ''0xCCCC'') fixedStringify twiceSigned)
     = [''stampSignatureMismatch''
          \<mapsto> JObj [(''expected'', JStr ''0xBBBB''), (''recovered'', JStr ''0xCCCC'')]]
   \<and> JObj [(''expected'', JStr ''0xAAAA''), (''recovered'', JStr ''0xCCCC'')]
     \<noteq> JObj [(''expected'', JStr ''0xBBBB''), (''recovered'', JStr ''0xCCCC'')]"
proof (intro conjI)
  show "details (verifyTrace (fixedRecovery ''0xCCCC'') fixedStringify twiceSigned ! 3)
       ''stampSignatureMismatch''
     = Some (JObj [(''expected'', JStr ''0xAAAA''), (''recovered'', JStr ''0xCCCC'')])"
    by (simp add: verifyTrace_def verify_unfold example_unfold)
  show "detailsOf (verifyWitnessChainStamp (fixedRecovery ''0xCCCC'') fixedStringify twiceSigned)
     = [''stampSignatureMismatch''
          \<mapsto> JObj [(''expected'', JStr ''0xBBBB''), (''recovered'', JStr ''0xCCCC'')]]"
    by (simp add: verify_unfold example_unfold getProp_def)
  show "JObj [(''expected'', JStr ''0xAAAA''), (''recovered'', JStr ''0xCCCC'')]
     \<noteq> JObj [(''expected'', JStr ''0xBBBB''), (''recovered'', JStr ''0xCCCC'')]"
    by simp
qed

theorem verify_details_keep_keys_witness:
  "keepsDetails (verifyTrace (fixedRecovery ''0xCCCC'') fixedStringify twiceSigned ! 3)
     (verifyTrace (fixedRecovery ''0xCCCC'') fixedStringify twiceSigned ! 8)
   \<and> detailsOf (verifyWitnessChainStamp (fixedRecovery ''0xCCCC'') fixedStringify twiceSigned)
        ''stampSignatureMismatch''
     = Some (JObj [(''expected'', JStr ''0xBBBB''), (''recovered'', JStr ''0xCCCC'')])"
proof -
  have len: "(3::nat) \<le> 8
      \<and> 8 < length (verifyTrace (fixedRecovery ''0xCCCC'') fixedStringify twiceSigned)"
    by (simp add: verifyTrace_def checkCoordinates_def twiceSigned_def exampleStamp_def Let_def)
  have readable: "locationReadable (location twiceSigned)"
    by (simp add: twiceSigned_def exampleStamp_def)
  have last: "lastOf (List.map_filter
                 (mismatchOf (fixedRecovery ''0xCCCC'') fixedStringify twiceSigned)
                 (signaturesOf twiceSigned))
      = Some (JObj [(''expected'', JStr ''0xBBBB''), (''recovered'', JStr ''0xCCCC'')])"
    by (simp add: signaturesOf_def mismatchOf_def lastOf_def List.map_filter_simps
          example_unfold)
  from verify_details_keep_keys [of "fixedRecovery ''0xCCCC''" fixedStringify twiceSigned]
  have keys: "\<forall>i j. i \<le> j
        \<and> j < length (verifyTrace (fixedRecovery ''0xCCCC'') fixedStringify twiceSigned)
       \<longrightarrow> keepsDetails (verifyTrace (fixedRecovery ''0xCCCC'') fixedStringify twiceSigned ! i)
             (verifyTrace (fixedRecovery ''0xCCCC'') fixedStringify twiceSigned ! j)"
    and val: "\<forall>r. verifyWitnessChainStamp (fixedRecovery ''0xCCCC'') fixedStringify twiceSigned
                  = Inr r
        \<longrightarrow> details r ''stampSignatureMismatch''
            = lastOf (List.map_filter
                 (mismatchOf (fixedRecovery ''0xCCCC'') fixedStringify twiceSigned)
                 (signaturesOf twiceSigned))"
    and ret: "locationReadable (location twiceSigned)
        \<longrightarrow> (\<exists>r. verifyWitnessChainStamp (fixedRecovery ''0xCCCC'') fixedStringify twiceSigned
                   = Inr r)"
    by blast+
  from ret readable obtain r
    where r: "verifyWitnessChainStamp (fixedRecovery ''0xCCCC'') fixedStringify twiceSigned = Inr r"
    by blast
  with val last
  have "detailsOf (verifyWitnessChainStamp (fixedRecovery ''0xCCCC'') fixedStringify twiceSigned)
          ''stampSignatureMismatch''
        = Some (JObj [(''expected'', JStr ''0xBBBB''), (''recovered'', JStr ''0xCCCC'')])"
    by (simp add: detailsOf_def)
  moreover from keys len have "keepsDetails
     (verifyTrace (fixedRecovery ''0xCCCC'') fixedStringify twiceSigned ! 3)
     (verifyTrace (fixedRecovery ''0xCCCC'') fixedStringify twiceSigned ! 8)"
    by blast
  ultimately show ?thesis by (simp only:)
qed

section \<open>Evaluation\<close>

lemma baseSpatial_at_zero: "0 < r \<Longrightarrow> baseSpatial 0 r = Inr 1"
  by (simp add: baseSpatial_def)

lemma baseSpatial_far: "0 < r \<Longrightarrow> 3 * r \<le> d \<Longrightarrow> baseSpatial d r = Inr 0"
  by (simp add: baseSpatial_def pos_le_divide_eq)

lemma baseSpatial_inside_nonincreasing:
  "0 < r \<Longrightarrow> d1 \<le> d2 \<Longrightarrow> d2 \<le> r
   \<Longrightarrow> \<exists>s1 s2. baseSpatial d1 r = Inr s1 \<and> baseSpatial d2 r = Inr s2 \<and> s2 \<le> s1"
  by (simp add: baseSpatial_def divide_right_mono)

lemma baseSpatial_outside_nonincreasing:
  "0 < r \<Longrightarrow> r < d1 \<Longrightarrow> d1 \<le> d2
   \<Longrightarrow> \<exists>s1 s2. baseSpatial d1 r = Inr s1 \<and> baseSpatial d2 r = Inr s2 \<and> s2 \<le> s1"
proof -
  assume r: "0 < r" and d1: "r < d1" and d: "d1 \<le> d2"
  have "d1 / (r * 3) \<le> d2 / (r * 3)"
    using r d by (simp add: divide_right_mono)
  then have "max 0 (1 - d2 / (r * 3)) \<le> max 0 (1 - d1 / (r * 3))"
    by (simp add: max_def)
  then show ?thesis
    using r d1 d by (simp add: baseSpatial_def)
qed

lemma baseSpatial_value: "r \<noteq> 0 \<Longrightarrow> baseSpatial d r = Inr (spatialValue r d)"
  by (simp add: spatialValue_def baseSpatial_def)

lemma spatialValue_tendsto: "0 < r \<Longrightarrow> (spatialValue r \<longlongrightarrow> 0) at_top"
proof -
  assume r: "0 < r"
  have "\<forall>d\<ge>3 * r. spatialValue r d = 0"
    using r by (simp add: spatialValue_def baseSpatial_far)
  then have "eventually (\<lambda>d. spatialValue r d = 0) at_top"
    unfolding eventually_at_top_linorder by blast
  then show ?thesis by (rule tendsto_eventually)
qed

text \<open>
  C1, amended. For every fixed effective radius \<open>r > 0\<close> the base spatial score, as a
  function of the distance \<open>d\<close>, equals 1 at \<open>d = 0\<close>, is non-increasing in \<open>d\<close> on
  \<open>[0, r]\<close> and on \<open>(r, \<infinity>)\<close>, is 0 from \<open>d = 3r\<close> on, and so tends to 0 as \<open>d\<close> grows.
\<close>

theorem baseSpatial_piecewise:
  assumes "0 < r"
  shows "(\<forall>d. baseSpatial d r = Inr (spatialValue r d))
       \<and> spatialValue r 0 = 1
       \<and> (\<forall>d1 d2. d1 \<le> d2 \<and> d2 \<le> r \<longrightarrow> spatialValue r d2 \<le> spatialValue r d1)
       \<and> (\<forall>d1 d2. r < d1 \<and> d1 \<le> d2 \<longrightarrow> spatialValue r d2 \<le> spatialValue r d1)
       \<and> (\<forall>d. 3 * r \<le> d \<longrightarrow> spatialValue r d = 0)
       \<and> (spatialValue r \<longlongrightarrow> 0) at_top"
proof -
  have v: "baseSpatial d r = Inr (spatialValue r d)" for d
    using assms by (simp add: baseSpatial_value)
  have zero: "spatialValue r 0 = 1"
    using assms by (simp add: spatialValue_def baseSpatial_at_zero)
  have inside: "spatialValue r d2 \<le> spatialValue r d1" if "d1 \<le> d2" "d2 \<le> r" for d1 d2
    using baseSpatial_inside_nonincreasing [OF assms that] by (auto simp: v)
  have outside: "spatialValue r d2 \<le> spatialValue r d1" if "r < d1" "d1 \<le> d2" for d1 d2
    using baseSpatial_outside_nonincreasing [OF assms that] by (auto simp: v)
  have far: "spatialValue r d = 0" if "3 * r \<le> d" for d
    using assms that by (simp add: spatialValue_def baseSpatial_far)
  show ?thesis
    using v zero inside outside far spatialValue_tendsto [OF assms] by blast
qed

theorem baseSpatial_piecewise_witness:
  "baseSpatial 250 1000 = Inr (spatialValue 1000 250)
   \<and> spatialValue 1000 0 = 1
   \<and> spatialValue 1000 750 \<le> spatialValue 1000 250
   \<and> spatialValue 1000 2500 \<le> spatialValue 1000 1500
   \<and> spatialValue 1000 3000 = 0"
proof -
  have r: "(0::real) < 1000" by simp
  from baseSpatial_piecewise [OF r]
  have "baseSpatial 250 1000 = Inr (spatialValue 1000 250)"
    and "spatialValue 1000 0 = 1"
    and i: "\<forall>d1 d2. d1 \<le> d2 \<and> d2 \<le> 1000 \<longrightarrow> spatialValue 1000 d2 \<le> spatialValue 1000 d1"
    and "\<forall>d1 d2. 1000 < d1 \<and> d1 \<le> d2 \<longrightarrow> spatialValue 1000 d2 \<le> spatialValue 1000 d1"
    and "\<forall>d. 3 * 1000 \<le> d \<longrightarrow> spatialValue 1000 d = 0"
    by blast+
  moreover have "(250::real) \<le> 750 \<and> (750::real) \<le> 1000" by simp
  moreover have "(1000::real) < 1500 \<and> (1500::real) \<le> 2500" by simp
  moreover have "3 * 1000 \<le> (3000::real)" by simp
  ultimately show ?thesis by blast
qed

text \<open>
  C1 as stated fails across \<open>d = r\<close>: there the first branch has fallen to 0, and right
  beyond \<open>r\<close> the second branch starts again near \<open>2/3\<close>. With \<open>r = 1000\<close> the score is 0
  at distance 1000 and \<open>1/2\<close> at the greater distance 1500.
\<close>

theorem baseSpatial_rises_beyond_radius:
  "(1000::real) \<le> 1500
   \<and> baseSpatial 1000 1000 = Inr 0 \<and> baseSpatial 1500 1000 = Inr (1 / 2)
   \<and> spatialValue 1000 1000 < spatialValue 1000 1500"
  by (simp add: baseSpatial_def spatialValue_def)

lemma haversine_same: "haversineDistance lat lon lat lon = Inr 0"
  by (simp add: haversineDistance_def toRad_def Let_def)

lemma haversine_half_turn: "haversineDistance 0 0 0 180 = Inr (6371000 * pi)"
  by (simp add: haversineDistance_def toRad_def Let_def EARTH_RADIUS_M_def)

text \<open>With both latitudes in range the haversine term stays between 0 and 1.\<close>

lemma haversine_term_bounds:
  fixes p q y :: real
  assumes "- (pi / 2) \<le> p" "p \<le> pi / 2" "- (pi / 2) \<le> q" "q \<le> pi / 2"
  shows "0 \<le> (sin ((q - p) / 2))\<^sup>2 + cos p * cos q * (sin y)\<^sup>2"
    and "(sin ((q - p) / 2))\<^sup>2 + cos p * cos q * (sin y)\<^sup>2 \<le> 1"
proof -
  have cp: "0 \<le> cos p" and cq: "0 \<le> cos q"
    using assms by (simp_all add: cos_ge_zero)
  then have cc: "0 \<le> cos p * cos q" by simp
  have sy: "(sin y)\<^sup>2 \<le> 1"
    using sin_squared_eq [of y] zero_le_power2 [of "cos y"] by linarith
  show "0 \<le> (sin ((q - p) / 2))\<^sup>2 + cos p * cos q * (sin y)\<^sup>2"
    using cc by simp
  have "cos p * cos q * (sin y)\<^sup>2 \<le> cos p * cos q * 1"
    using cc sy by (rule mult_left_mono [rotated])
  then have a: "cos p * cos q * (sin y)\<^sup>2 \<le> cos p * cos q" by simp
  have "2 * ((q - p) / 2) = q - p" by simp
  with cos_double_sin [of "(q - p) / 2"]
  have "cos (q - p) = 1 - 2 * (sin ((q - p) / 2))\<^sup>2" by (simp only:)
  then have half: "(sin ((q - p) / 2))\<^sup>2 = (1 - cos (q - p)) / 2"
    by (simp add: field_simps)
  have prod: "cos p * cos q = (cos (p - q) + cos (p + q)) / 2"
    by (rule cos_times_cos)
  have sym: "cos (p - q) = cos (q - p)"
    using cos_minus [of "q - p"] by simp
  have "(sin ((q - p) / 2))\<^sup>2 + cos p * cos q = (1 + cos (p + q)) / 2"
    by (simp add: half prod sym field_simps)
  also have "\<dots> \<le> 1"
    using cos_le_one [of "p + q"] by simp
  finally show "(sin ((q - p) / 2))\<^sup>2 + cos p * cos q * (sin y)\<^sup>2 \<le> 1"
    using a by linarith
qed

lemma toRad_range: "- 90 \<le> lat \<Longrightarrow> lat \<le> 90 \<Longrightarrow> - (pi / 2) \<le> toRad lat \<and> toRad lat \<le> pi / 2"
proof -
  assume a: "- 90 \<le> lat" and b: "lat \<le> 90"
  have "lat * pi \<le> 90 * pi" using b pi_gt_zero by (simp only: mult_le_cancel_right) simp
  moreover have "- 90 * pi \<le> lat * pi" using a pi_gt_zero by (simp only: mult_le_cancel_right) simp
  ultimately show ?thesis by (simp add: toRad_def)
qed

lemma haversine_returns:
  assumes "- 90 \<le> lat1" "lat1 \<le> 90" "- 90 \<le> lat2" "lat2 \<le> 90"
  shows "\<exists>d. haversineDistance lat1 lon1 lat2 lon2 = Inr d"
proof -
  have d: "toRad (lat2 - lat1) / 2 = (toRad lat2 - toRad lat1) / 2"
    by (simp add: toRad_def field_simps)
  from haversine_term_bounds [of "toRad lat1" "toRad lat2" "toRad (lon2 - lon1) / 2"]
    toRad_range [OF assms(1,2)] toRad_range [OF assms(3,4)]
  have "0 \<le> (sin (toRad (lat2 - lat1) / 2))\<^sup>2
             + cos (toRad lat1) * cos (toRad lat2) * (sin (toRad (lon2 - lon1) / 2))\<^sup>2"
    and "(sin (toRad (lat2 - lat1) / 2))\<^sup>2
             + cos (toRad lat1) * cos (toRad lat2) * (sin (toRad (lon2 - lon1) / 2))\<^sup>2 \<le> 1"
    by (simp_all only: d)
  then show ?thesis
    by (simp add: haversineDistance_def Let_def)
qed

lemma combineScores_formula:
  assumes "combineScores stamp claim sd = Inr v"
  shows "score v = max 0 (min 1 (spatial v * (65 / 100) + temporal v * (35 / 100)
                                  - challengePenalty stamp))"
    and "supportsClaim v = (score v > 3 / 10 \<and> spatial v > 1 / 10 \<and> temporal v > 0)"
    and "spatial v = fst sd"
    and "signal stamp ''challengeSucceeded'' = JBool False
         \<Longrightarrow> evalDetails v ''challengeFailedPenalty'' = Some (JNum (3 / 10))"
  using assms
  by (auto simp: combineScores_def Let_def challengePenalty_def split: option.splits)

lemma evaluate_point:
  assumes "coordinatesOf (location stamp) = Some scoords"
    and "coordinatesOf (claimLocation claim) = Some ccoords"
  shows "evaluateWitnessChainStamp stamp claim
     = (case spatialScoring stamp claim scoords ccoords of
          Inl f \<Rightarrow> Inl f
        | Inr sd \<Rightarrow> combineScores stamp claim sd)"
  using assms by (simp add: evaluateWitnessChainStamp_def coordinatesMember_point)

lemma evaluate_formula:
  assumes "evaluateWitnessChainStamp stamp claim = Inr v"
    and "coordinatesOf (location stamp) = Some scoords"
    and "coordinatesOf (claimLocation claim) = Some ccoords"
  shows "score v = max 0 (min 1 (spatial v * (65 / 100) + temporal v * (35 / 100)
                                  - challengePenalty stamp))"
    and "supportsClaim v = (score v > 3 / 10 \<and> spatial v > 1 / 10 \<and> temporal v > 0)"
    and "map_sum id fst (spatialScoring stamp claim scoords ccoords) = Inr (spatial v)"
proof -
  from assms(1) obtain sd where sd: "spatialScoring stamp claim scoords ccoords = Inr sd"
    and v: "combineScores stamp claim sd = Inr v"
    by (auto simp: evaluate_point [OF assms(2,3)] split: sum.splits)
  from v show "score v = max 0 (min 1 (spatial v * (65 / 100) + temporal v * (35 / 100)
                                  - challengePenalty stamp))"
    and "supportsClaim v = (score v > 3 / 10 \<and> spatial v > 1 / 10 \<and> temporal v > 0)"
    by (rule combineScores_formula)+
  from combineScores_formula(3) [OF v] sd
  show "map_sum id fst (spatialScoring stamp claim scoords ccoords) = Inr (spatial v)"
    by simp
qed

lemma baseSpatial_returns: "r \<noteq> 0 \<Longrightarrow> \<exists>s. baseSpatial d r = Inr s"
  by (simp add: baseSpatial_def)

lemma spatialScoring_returns:
  assumes "- 90 \<le> stampLat" "stampLat \<le> 90" "- 90 \<le> claimLat" "claimLat \<le> 90"
    and "uncertaintyKm (signal stamp ''knowLocUncertaintyKm'') = Inr u"
    and "radius claim + u * 1000 \<noteq> 0"
  shows "\<exists>sd. spatialScoring stamp claim (stampLon # stampLat # srest)
                 (claimLon # claimLat # crest) = Inr sd"
proof -
  from haversine_returns [OF assms(1-4)]
  obtain d where d: "haversineDistance stampLat stampLon claimLat claimLon = Inr d"
    by blast
  from baseSpatial_returns [OF assms(6)]
  obtain s where s: "baseSpatial d (radius claim + u * 1000) = Inr s"
    by blast
  show ?thesis
    by (simp add: spatialScoring_def elemAt_def d assms(5) s Let_def)
qed

lemma combineScores_returns:
  "temporalFootprint stamp \<noteq> None \<Longrightarrow> \<exists>v. combineScores stamp claim sd = Inr v"
  by (auto simp: combineScores_def Let_def)

lemma evaluate_returns:
  assumes "numericInputs stamp claim"
  shows "\<exists>v. evaluateWitnessChainStamp stamp claim = Inr v"
proof -
  from assms obtain stampLon stampLat srest claimLon claimLat crest u
    where sc: "coordinatesOf (location stamp) = Some (stampLon # stampLat # srest)"
      and cc: "coordinatesOf (claimLocation claim) = Some (claimLon # claimLat # crest)"
      and lat: "- 90 \<le> stampLat" "stampLat \<le> 90" "- 90 \<le> claimLat" "claimLat \<le> 90"
      and fp: "temporalFootprint stamp \<noteq> None"
      and u: "uncertaintyKm (signal stamp ''knowLocUncertaintyKm'') = Inr u"
      and r: "radius claim + u * 1000 \<noteq> 0"
    by (auto simp: numericInputs_def split: option.splits list.splits sum.splits)
  from spatialScoring_returns [OF lat u r]
  obtain sd where "spatialScoring stamp claim (stampLon # stampLat # srest)
                 (claimLon # claimLat # crest) = Inr sd"
    by blast
  moreover from combineScores_returns [OF fp]
  obtain v where "combineScores stamp claim sd = Inr v"
    by blast
  ultimately show ?thesis
    by (simp add: evaluate_point [OF sc cc])
qed

lemma evaluate_temporal:
  assumes "evaluateWitnessChainStamp stamp claim = Inr v"
    and "coordinatesOf (location stamp) = Some scoords"
    and "coordinatesOf (claimLocation claim) = Some ccoords"
    and "temporalFootprint stamp = Some a"
  shows "temporal v = temporalOverlap a (time claim)"
proof -
  from assms(1) obtain sd where "combineScores stamp claim sd = Inr v"
    by (auto simp: evaluate_point [OF assms(2,3)] split: sum.splits)
  with assms(4) show ?thesis
    by (auto simp: combineScores_def Let_def)
qed

text \<open>
  C7, amended. For every stamp and claim that both carry a location with coordinates, and
  for the two time windows, \<open>a\<close> the stamp's \<open>temporalFootprint\<close> and \<open>b\<close> the claim's \<open>time\<close>,
  the temporal component of a vector that the evaluator returns is \<^verbatim>\<open>temporalOverlap\<close> of
  the two: the overlap (the least end minus the greatest start) divided by the shorter of
  the two durations when the windows overlap and that duration is positive, and 0 when
  the least end is at most the greatest start, or when the shorter duration is 0. Hence
  it lies in \<open>[0, 1]\<close>, it is 0 for disjoint windows, and it is 1 for two identical windows
  of positive duration. The evaluator does return a vector on all inputs whose arithmetic
  stays within the reals.
\<close>

theorem evaluate_temporal_component:
  assumes "coordinatesOf (location stamp) = Some scoords"
    and "coordinatesOf (claimLocation claim) = Some ccoords"
    and "temporalFootprint stamp = Some a"
    and "time claim = b"
  shows "(\<forall>v. evaluateWitnessChainStamp stamp claim = Inr v
           \<longrightarrow> temporal v = temporalOverlap a b
              \<and> (max (start a) (start b) < min (finish a) (finish b)
                    \<and> 0 < min (finish a - start a) (finish b - start b)
                  \<longrightarrow> temporal v
                        = (min (finish a) (finish b) - max (start a) (start b))
                          / min (finish a - start a) (finish b - start b))
              \<and> (min (finish a) (finish b) \<le> max (start a) (start b)
                    \<or> min (finish a - start a) (finish b - start b) = 0
                  \<longrightarrow> temporal v = 0)
              \<and> 0 \<le> temporal v \<and> temporal v \<le> 1
              \<and> (finish a \<le> start b \<or> finish b \<le> start a \<longrightarrow> temporal v = 0)
              \<and> (a = b \<and> start a < finish a \<longrightarrow> temporal v = 1))
       \<and> (numericInputs stamp claim \<longrightarrow> (\<exists>v. evaluateWitnessChainStamp stamp claim = Inr v))"
proof (rule conjI, rule allI, rule impI)
  fix v
  assume "evaluateWitnessChainStamp stamp claim = Inr v"
  from evaluate_temporal [OF this assms(1,2,3)] assms(4)
  have t: "temporal v = temporalOverlap a b" by simp
  have same: "a = b \<and> start a < finish a \<longrightarrow> temporalOverlap a b = 1"
    using temporalOverlap_same [of a] by auto
  from temporalOverlap_ratio [of a b] same
  show "temporal v = temporalOverlap a b
              \<and> (max (start a) (start b) < min (finish a) (finish b)
                    \<and> 0 < min (finish a - start a) (finish b - start b)
                  \<longrightarrow> temporal v
                        = (min (finish a) (finish b) - max (start a) (start b))
                          / min (finish a - start a) (finish b - start b))
              \<and> (min (finish a) (finish b) \<le> max (start a) (start b)
                    \<or> min (finish a - start a) (finish b - start b) = 0
                  \<longrightarrow> temporal v = 0)
              \<and> 0 \<le> temporal v \<and> temporal v \<le> 1
              \<and> (finish a \<le> start b \<or> finish b \<le> start a \<longrightarrow> temporal v = 0)
              \<and> (a = b \<and> start a < finish a \<longrightarrow> temporal v = 1)"
    unfolding t by blast
next
  show "numericInputs stamp claim \<longrightarrow> (\<exists>v. evaluateWitnessChainStamp stamp claim = Inr v)"
    using evaluate_returns [of stamp claim] by blast
qed

theorem evaluate_temporal_component_witness:
  "(\<exists>v. evaluateWitnessChainStamp exampleStamp lateClaim = Inr v \<and> temporal v = 1 / 2)
   \<and> (\<exists>v. evaluateWitnessChainStamp exampleStamp antipodeClaim = Inr v \<and> temporal v = 0)
   \<and> (\<exists>v. evaluateWitnessChainStamp exampleStamp sameWindowClaim = Inr v \<and> temporal v = 1)"
proof (intro conjI)
  let ?a = "\<lparr>start = 1768478400, finish = 1768478410\<rparr> :: Interval"
  have s: "coordinatesOf (location exampleStamp) = Some [- 73.9857, 40.7484]"
    and a: "temporalFootprint exampleStamp = Some ?a"
    by (simp_all add: exampleStamp_def)
  show "\<exists>v. evaluateWitnessChainStamp exampleStamp lateClaim = Inr v \<and> temporal v = 1 / 2"
  proof -
    let ?b = "\<lparr>start = 1768478405, finish = 1768478700\<rparr> :: Interval"
    have c: "coordinatesOf (claimLocation lateClaim) = Some [- 73.9857, 40.7484]"
      and b: "time lateClaim = ?b"
      by (simp_all add: lateClaim_def nearClaim_def)
    have n: "numericInputs exampleStamp lateClaim"
      by (simp add: numericInputs_def exampleStamp_def lateClaim_def nearClaim_def signal_def)
    have o: "max (start ?a) (start ?b) < min (finish ?a) (finish ?b)
             \<and> 0 < min (finish ?a - start ?a) (finish ?b - start ?b)"
      by simp
    have r: "(min (finish ?a) (finish ?b) - max (start ?a) (start ?b))
               / min (finish ?a - start ?a) (finish ?b - start ?b) = 1 / 2"
      by simp
    from evaluate_temporal_component [OF s c a b] n
    obtain v where v: "evaluateWitnessChainStamp exampleStamp lateClaim = Inr v"
      by blast
    with evaluate_temporal_component [OF s c a b] o
    have "temporal v = (min (finish ?a) (finish ?b) - max (start ?a) (start ?b))
                         / min (finish ?a - start ?a) (finish ?b - start ?b)"
      by blast
    with r have "temporal v = 1 / 2" by (simp only:)
    with v show ?thesis by blast
  qed
  show "\<exists>v. evaluateWitnessChainStamp exampleStamp antipodeClaim = Inr v \<and> temporal v = 0"
  proof -
    let ?b = "\<lparr>start = 1735689600, finish = 1735693200\<rparr> :: Interval"
    have c: "coordinatesOf (claimLocation antipodeClaim) = Some [180, 0]"
      and b: "time antipodeClaim = ?b"
      by (simp_all add: antipodeClaim_def)
    have n: "numericInputs exampleStamp antipodeClaim"
      by (simp add: numericInputs_def exampleStamp_def antipodeClaim_def signal_def)
    have o: "finish ?a \<le> start ?b \<or> finish ?b \<le> start ?a"
      by simp
    from evaluate_temporal_component [OF s c a b] n
    obtain v where v: "evaluateWitnessChainStamp exampleStamp antipodeClaim = Inr v"
      by blast
    with evaluate_temporal_component [OF s c a b] o
    have "temporal v = 0" by blast
    with v show ?thesis by blast
  qed
  show "\<exists>v. evaluateWitnessChainStamp exampleStamp sameWindowClaim = Inr v \<and> temporal v = 1"
  proof -
    have c: "coordinatesOf (claimLocation sameWindowClaim) = Some [- 73.9857, 40.7484]"
      and b: "time sameWindowClaim = ?a"
      by (simp_all add: sameWindowClaim_def nearClaim_def)
    have n: "numericInputs exampleStamp sameWindowClaim"
      by (simp add: numericInputs_def exampleStamp_def sameWindowClaim_def nearClaim_def
            signal_def)
    have o: "?a = ?a \<and> start ?a < finish ?a"
      by simp
    from evaluate_temporal_component [OF s c a b] n
    obtain v where v: "evaluateWitnessChainStamp exampleStamp sameWindowClaim = Inr v"
      by blast
    with evaluate_temporal_component [OF s c a b] o
    have "temporal v = 1" by blast
    with v show ?thesis by blast
  qed
qed

text \<open>
  C7 as stated fails for a stamp without coordinates: the stamp of the tests whose
  location is a string identifier and a claim over the very window of the stamp, of ten
  seconds, have two identical windows of positive duration, and the evaluator returns its
  error vector, whose temporal component is 0 and not 1.
\<close>

theorem evaluate_temporal_without_coordinates:
  "evaluateWitnessChainStamp textStamp sameWindowClaim
     = Inr (errorVector ''Cannot extract coordinates from stamp location'')
   \<and> temporal (errorVector ''Cannot extract coordinates from stamp location'') = 0
   \<and> temporalFootprint textStamp = Some (time sameWindowClaim)
   \<and> start (time sameWindowClaim) < finish (time sameWindowClaim)
   \<and> temporalOverlap (time sameWindowClaim) (time sameWindowClaim) = 1"
  by (simp add: evaluateWitnessChainStamp_def errorVector_def textStamp_def exampleStamp_def
        sameWindowClaim_def nearClaim_def temporalOverlap_def Let_def)

text \<open>
  C3. For every stamp and claim that both carry a location with coordinates, a vector
  that the evaluator returns has \<open>score = clamp(spatial * 0.65 + temporal * 0.35 - penalty,
  0, 1)\<close> and \<open>supportsClaim = (score > 0.3 \<and> spatial > 0.1 \<and> temporal > 0)\<close>, where
  \<open>spatial\<close> is the spatial score after the bonuses and \<open>penalty\<close> the penalty of a failed
  challenge; and the evaluator does return a vector on all inputs whose arithmetic stays
  within the reals.
\<close>

theorem evaluate_score_and_verdict:
  assumes "coordinatesOf (location stamp) = Some scoords"
    and "coordinatesOf (claimLocation claim) = Some ccoords"
  shows "(\<forall>v. evaluateWitnessChainStamp stamp claim = Inr v
           \<longrightarrow> score v = max 0 (min 1 (spatial v * (65 / 100) + temporal v * (35 / 100)
                                           - challengePenalty stamp))
              \<and> supportsClaim v
                  = (score v > 3 / 10 \<and> spatial v > 1 / 10 \<and> temporal v > 0)
              \<and> map_sum id fst (spatialScoring stamp claim scoords ccoords)
                  = Inr (spatial v))
       \<and> (numericInputs stamp claim \<longrightarrow> (\<exists>v. evaluateWitnessChainStamp stamp claim = Inr v))"
  using evaluate_formula [OF _ assms] evaluate_returns [of stamp claim] by blast

theorem evaluate_score_and_verdict_witness:
  "\<exists>v. evaluateWitnessChainStamp exampleStamp nearClaim = Inr v
       \<and> score v = 1 \<and> supportsClaim v"
proof -
  have s: "coordinatesOf (location exampleStamp) = Some [- 73.9857, 40.7484]"
    and c: "coordinatesOf (claimLocation nearClaim) = Some [- 73.9857, 40.7484]"
    by (simp_all add: exampleStamp_def nearClaim_def)
  have n: "numericInputs exampleStamp nearClaim"
    by (simp add: numericInputs_def exampleStamp_def nearClaim_def signal_def)
  from evaluate_score_and_verdict [OF s c] n
  obtain v where v: "evaluateWitnessChainStamp exampleStamp nearClaim = Inr v"
    and f: "score v = max 0 (min 1 (spatial v * (65 / 100) + temporal v * (35 / 100)
                                           - challengePenalty exampleStamp))"
      "supportsClaim v = (score v > 3 / 10 \<and> spatial v > 1 / 10 \<and> temporal v > 0)"
    by blast
  have "evaluateWitnessChainStamp exampleStamp nearClaim
      = Inr \<lparr>supportsClaim = True, score = 1, spatial = 1, temporal = 1,
             evalDetails = [''distanceMeters'' \<mapsto> JNum 0,
                            ''effectiveRadiusMeters'' \<mapsto> JNum 50500,
                            ''knowLocUncertaintyKm'' \<mapsto> JNum 50,
                            ''temporalOverlap'' \<mapsto> JNum 1]\<rparr>"
    by (simp add: evaluateWitnessChainStamp_def spatialScoring_def combineScores_def
          exampleStamp_def nearClaim_def elemAt_def haversine_same signal_def baseSpatial_def
          applyBonuses_def temporalOverlap_def challengePenalty_def Let_def)
  with v have "spatial v = 1" "temporal v = 1" by auto
  moreover have "challengePenalty exampleStamp = 0"
    by (simp add: challengePenalty_def exampleStamp_def signal_def)
  ultimately have "score v = 1" "supportsClaim v"
    using f by simp_all
  with v show ?thesis by blast
qed

lemma signal_withChallengeSucceeded:
  "signal (withChallengeSucceeded b stamp) k
     = (if k = ''challengeSucceeded'' then JBool b else signal stamp k)"
  by (simp add: signal_def withChallengeSucceeded_def)

lemma withChallengeSucceeded_fields:
  "location (withChallengeSucceeded b stamp) = location stamp"
  "temporalFootprint (withChallengeSucceeded b stamp) = temporalFootprint stamp"
  by (simp_all add: withChallengeSucceeded_def)

lemma signal_other_withChallengeSucceeded:
  "signal (withChallengeSucceeded b stamp) ''knowLocUncertaintyKm''
     = signal stamp ''knowLocUncertaintyKm''"
  "signal (withChallengeSucceeded b stamp) ''consolidatedResult''
     = signal stamp ''consolidatedResult''"
  by (simp_all add: signal_withChallengeSucceeded)

lemma spatialScoring_withChallengeSucceeded:
  "spatialScoring (withChallengeSucceeded b stamp) claim scoords ccoords
     = spatialScoring stamp claim scoords ccoords"
  unfolding spatialScoring_def signal_other_withChallengeSucceeded by (rule refl)

lemma numericInputs_withChallengeSucceeded:
  "numericInputs (withChallengeSucceeded b stamp) claim = numericInputs stamp claim"
  unfolding numericInputs_def signal_other_withChallengeSucceeded withChallengeSucceeded_fields
  by (rule refl)

lemma combineScores_penalty:
  assumes "signal stamp ''challengeSucceeded'' = JBool False"
    and "combineScores stamp claim sd = Inr v"
    and "combineScores (withChallengeSucceeded True stamp) claim sd = Inr v'"
  shows "evalDetails v ''challengeFailedPenalty'' = Some (JNum (3 / 10))"
    and "spatial v = spatial v'" and "temporal v = temporal v'"
    and "score v' = max 0 (min 1 (spatial v' * (65 / 100) + temporal v' * (35 / 100)))"
    and "score v = max 0 (min 1 (spatial v' * (65 / 100) + temporal v' * (35 / 100) - 3 / 10))"
  using assms
  by (auto simp: combineScores_def Let_def challengePenalty_def signal_withChallengeSucceeded
        withChallengeSucceeded_fields split: option.splits)

text \<open>
  C6, amended. For every stamp with coordinates whose \<open>challengeSucceeded\<close> is false and
  every claim whose location has coordinates too, a vector that the evaluator returns
  records \<open>challengeFailedPenalty = 0.3\<close>, has the spatial and the temporal component of
  the vector returned for the otherwise identical stamp with \<open>challengeSucceeded = true\<close>,
  and has the score \<open>clamp(raw - 0.3, 0, 1)\<close>, where \<open>raw = spatial * 0.65 + temporal *
  0.35\<close> is what the other stamp clamps to its score. The score is exactly 0.3 lower when
  \<open>0.3 \<le> raw \<le> 1\<close>. The evaluator does return the two vectors on all inputs whose
  arithmetic stays within the reals.
\<close>

theorem evaluate_failed_challenge:
  assumes "signal stamp ''challengeSucceeded'' = JBool False"
    and "coordinatesOf (location stamp) \<noteq> None"
    and "coordinatesOf (claimLocation claim) \<noteq> None"
  shows "(\<forall>v v'. evaluateWitnessChainStamp stamp claim = Inr v
             \<and> evaluateWitnessChainStamp (withChallengeSucceeded True stamp) claim = Inr v'
           \<longrightarrow> evalDetails v ''challengeFailedPenalty'' = Some (JNum (3 / 10))
              \<and> spatial v = spatial v' \<and> temporal v = temporal v'
              \<and> score v' = max 0 (min 1 (spatial v' * (65 / 100) + temporal v' * (35 / 100)))
              \<and> score v = max 0 (min 1 (spatial v' * (65 / 100) + temporal v' * (35 / 100)
                                          - 3 / 10))
              \<and> (3 / 10 \<le> spatial v' * (65 / 100) + temporal v' * (35 / 100)
                  \<and> spatial v' * (65 / 100) + temporal v' * (35 / 100) \<le> 1
                 \<longrightarrow> score v = score v' - 3 / 10))
       \<and> (numericInputs stamp claim
           \<longrightarrow> (\<exists>v v'. evaluateWitnessChainStamp stamp claim = Inr v
                  \<and> evaluateWitnessChainStamp (withChallengeSucceeded True stamp) claim = Inr v'))"
proof -
  from assms(2,3) obtain scoords ccoords
    where c: "coordinatesOf (location stamp) = Some scoords"
      "coordinatesOf (claimLocation claim) = Some ccoords"
    by auto
  have c': "coordinatesOf (location (withChallengeSucceeded True stamp)) = Some scoords"
    using c by (simp add: withChallengeSucceeded_fields)
  have rel: "evalDetails v ''challengeFailedPenalty'' = Some (JNum (3 / 10))
              \<and> spatial v = spatial v' \<and> temporal v = temporal v'
              \<and> score v' = max 0 (min 1 (spatial v' * (65 / 100) + temporal v' * (35 / 100)))
              \<and> score v = max 0 (min 1 (spatial v' * (65 / 100) + temporal v' * (35 / 100)
                                          - 3 / 10))
              \<and> (3 / 10 \<le> spatial v' * (65 / 100) + temporal v' * (35 / 100)
                  \<and> spatial v' * (65 / 100) + temporal v' * (35 / 100) \<le> 1
                 \<longrightarrow> score v = score v' - 3 / 10)"
    if v: "evaluateWitnessChainStamp stamp claim = Inr v"
      and v': "evaluateWitnessChainStamp (withChallengeSucceeded True stamp) claim = Inr v'"
    for v v'
  proof -
    from v obtain sd where sd: "spatialScoring stamp claim scoords ccoords = Inr sd"
      and a: "combineScores stamp claim sd = Inr v"
      by (auto simp: evaluate_point [OF c] split: sum.splits)
    from v' sd have b: "combineScores (withChallengeSucceeded True stamp) claim sd = Inr v'"
      by (simp add: evaluate_point [OF c' c(2)] spatialScoring_withChallengeSucceeded)
    note p = combineScores_penalty [OF assms(1) a b]
    have "score v = score v' - 3 / 10"
      if "3 / 10 \<le> spatial v' * (65 / 100) + temporal v' * (35 / 100)"
        and "spatial v' * (65 / 100) + temporal v' * (35 / 100) \<le> 1"
      using that p(4,5) by (simp add: max_def min_def)
    with p show ?thesis by blast
  qed
  have tot: "\<exists>v v'. evaluateWitnessChainStamp stamp claim = Inr v
                  \<and> evaluateWitnessChainStamp (withChallengeSucceeded True stamp) claim = Inr v'"
    if "numericInputs stamp claim"
    using that evaluate_returns [of stamp claim]
      evaluate_returns [of "withChallengeSucceeded True stamp" claim]
    by (simp add: numericInputs_withChallengeSucceeded)
  from rel tot show ?thesis by blast
qed

lemma baseSpatial_half_turn: "baseSpatial (6371000 * pi) 50500 = Inr 0"
proof -
  have "3 * (50500::real) \<le> 6371000 * pi"
    using pi_ge_two by simp
  then show ?thesis
    by (intro baseSpatial_far) simp_all
qed

lemma spatialScoring_half_turn:
  "map_sum id fst (spatialScoring equatorFailed antipodeClaim [0, 0] [180, 0]) = Inr 0"
  "map_sum id fst (spatialScoring (withChallengeSucceeded True equatorFailed) antipodeClaim
      [0, 0] [180, 0]) = Inr 0"
  by (simp_all add: spatialScoring_withChallengeSucceeded)
     (simp_all add: spatialScoring_def elemAt_def haversine_half_turn equatorFailed_def
        antipodeClaim_def exampleStamp_def signal_def baseSpatial_half_turn applyBonuses_def
        Let_def)

lemma score_zero:
  "temporalFootprint stamp = Some footprint \<Longrightarrow> temporalOverlap footprint (time claim) = 0
   \<Longrightarrow> fst sd = 0
   \<Longrightarrow> scoreOf (combineScores stamp claim sd) = Some 0"
  by (simp add: combineScores_def scoreOf_def challengePenalty_def Let_def)

text \<open>
  C6 as stated fails where the clamp cuts: a failed challenge half a turn away from the
  claim and a year apart has score 0, and so has the otherwise identical successful one;
  0 is not 0.3 lower than 0. It fails as well for a claim whose location is a string
  identifier: for the failed example stamp, which has coordinates, the evaluator returns
  its error vector, which records no penalty.
\<close>

theorem evaluate_failed_challenge_clamped:
  "scoreOf (evaluateWitnessChainStamp equatorFailed antipodeClaim) = Some 0
   \<and> scoreOf (evaluateWitnessChainStamp (withChallengeSucceeded True equatorFailed)
               antipodeClaim) = Some 0
   \<and> signal equatorFailed ''challengeSucceeded'' = JBool False
   \<and> signal exampleFailed ''challengeSucceeded'' = JBool False
   \<and> coordinatesOf (location exampleFailed) = Some [- 73.9857, 40.7484]
   \<and> evaluateWitnessChainStamp exampleFailed textClaim
       = Inr (errorVector ''Cannot extract coordinates from claim location'')
   \<and> evalDetails (errorVector ''Cannot extract coordinates from claim location'')
         ''challengeFailedPenalty'' = None"
proof -
  have e: "signal exampleFailed ''challengeSucceeded'' = JBool False
   \<and> coordinatesOf (location exampleFailed) = Some [- 73.9857, 40.7484]
   \<and> evaluateWitnessChainStamp exampleFailed textClaim
       = Inr (errorVector ''Cannot extract coordinates from claim location'')
   \<and> evalDetails (errorVector ''Cannot extract coordinates from claim location'')
         ''challengeFailedPenalty'' = None"
    by (simp add: evaluateWitnessChainStamp_def errorVector_def exampleFailed_def
          withChallengeSucceeded_def exampleStamp_def textClaim_def nearClaim_def signal_def)
  have t: "temporalOverlap \<lparr>start = 1768478400, finish = 1768478410\<rparr> (time antipodeClaim) = 0"
    by (simp add: temporalOverlap_def antipodeClaim_def Let_def)
  have fp: "temporalFootprint equatorFailed = Some \<lparr>start = 1768478400, finish = 1768478410\<rparr>"
    "temporalFootprint (withChallengeSucceeded True equatorFailed)
       = Some \<lparr>start = 1768478400, finish = 1768478410\<rparr>"
    by (simp_all add: equatorFailed_def exampleStamp_def withChallengeSucceeded_def)
  have c: "coordinatesOf (location equatorFailed) = Some [0, 0]"
    "coordinatesOf (location (withChallengeSucceeded True equatorFailed)) = Some [0, 0]"
    "coordinatesOf (claimLocation antipodeClaim) = Some [180, 0]"
    by (simp_all add: equatorFailed_def antipodeClaim_def withChallengeSucceeded_def)
  have a: "scoreOf (evaluateWitnessChainStamp equatorFailed antipodeClaim) = Some 0"
    using spatialScoring_half_turn(1) score_zero [OF fp(1) t]
    by (auto simp: evaluate_point [OF c(1) c(3)] split: sum.splits)
  have b: "scoreOf (evaluateWitnessChainStamp (withChallengeSucceeded True equatorFailed)
               antipodeClaim) = Some 0"
    using spatialScoring_half_turn(2) score_zero [OF fp(2) t]
    by (auto simp: evaluate_point [OF c(2) c(3)] split: sum.splits)
  have "signal equatorFailed ''challengeSucceeded'' = JBool False"
    by (simp add: equatorFailed_def signal_def)
  with a b e show ?thesis by (simp only:)
qed

theorem evaluate_failed_challenge_witness:
  "\<exists>v v'. evaluateWitnessChainStamp exampleFailed nearClaim = Inr v
     \<and> evaluateWitnessChainStamp (withChallengeSucceeded True exampleFailed) nearClaim = Inr v'
     \<and> evalDetails v ''challengeFailedPenalty'' = Some (JNum (3 / 10))
     \<and> spatial v = spatial v'
     \<and> score v' = 1 \<and> score v = 7 / 10"
proof -
  have f: "signal exampleFailed ''challengeSucceeded'' = JBool False"
    by (simp add: exampleFailed_def signal_withChallengeSucceeded)
  have s: "coordinatesOf (location exampleFailed) \<noteq> None"
    and c: "coordinatesOf (claimLocation nearClaim) \<noteq> None"
    by (simp_all add: exampleFailed_def withChallengeSucceeded_def exampleStamp_def nearClaim_def)
  have n: "numericInputs exampleFailed nearClaim"
    by (simp add: exampleFailed_def numericInputs_withChallengeSucceeded)
       (simp add: numericInputs_def exampleStamp_def nearClaim_def signal_def)
  from evaluate_failed_challenge [OF f s c] n
  obtain v v' where v: "evaluateWitnessChainStamp exampleFailed nearClaim = Inr v"
    and v': "evaluateWitnessChainStamp (withChallengeSucceeded True exampleFailed) nearClaim
               = Inr v'"
    by blast
  from evaluate_failed_challenge [OF f s c] v v'
  have r: "evalDetails v ''challengeFailedPenalty'' = Some (JNum (3 / 10))"
    "spatial v = spatial v'"
    "score v' = max 0 (min 1 (spatial v' * (65 / 100) + temporal v' * (35 / 100)))"
    "score v = max 0 (min 1 (spatial v' * (65 / 100) + temporal v' * (35 / 100) - 3 / 10))"
    by blast+
  have "evaluateWitnessChainStamp (withChallengeSucceeded True exampleFailed) nearClaim
      = Inr \<lparr>supportsClaim = True, score = 1, spatial = 1, temporal = 1,
             evalDetails = [''distanceMeters'' \<mapsto> JNum 0,
                            ''effectiveRadiusMeters'' \<mapsto> JNum 50500,
                            ''knowLocUncertaintyKm'' \<mapsto> JNum 50,
                            ''temporalOverlap'' \<mapsto> JNum 1]\<rparr>"
    by (simp add: evaluateWitnessChainStamp_def spatialScoring_def combineScores_def
          exampleFailed_def withChallengeSucceeded_def
          exampleStamp_def nearClaim_def elemAt_def haversine_same signal_def baseSpatial_def
          applyBonuses_def temporalOverlap_def challengePenalty_def Let_def)
  with v' have "spatial v' = 1" "temporal v' = 1" by auto
  with r have "score v' = 1" "score v = 7 / 10" by simp_all
  with v v' r(1,2) show ?thesis by blast
qed

section \<open>Signing and building\<close>

text \<open>
  C2, amended. For every stamp object and signer whose serialization and signature
  succeed, \<open>sign\<close> returns a new object: every object that existed is left as it was,
  the argument among them, with the signatures it may carry. The signature sequence of
  the new stamp is the one new record (the signer, the algorithm, the value signed over
  the serialized argument, the clock in whole seconds) and nothing else; this is the
  prior sequence with the record appended when the argument carries no signature. All
  other members of the new stamp are those of the argument.
\<close>

theorem sign_replaces_signatures:
  assumes "stampRef < length (stamps w)"
    and "stringify (stamps w ! stampRef) = Inr data1"
    and "signWith signer1 data1 = Inr sigValue1"
  shows "\<exists>r w'. sign stringify stampRef signer1 w = Inr (r, w')
           \<and> r = length (stamps w)
           \<and> length (stamps w') = Suc (length (stamps w))
           \<and> (\<forall>a < length (stamps w). stamps w' ! a = stamps w ! a)
           \<and> dateNow w' = dateNow w
           \<and> signaturesOf (stamps w' ! r)
               = [\<lparr>signer = signerOf signer1, algorithm = algorithmOf signer1,
                    sigValue = sigValue1, timestamp = dateNow w div 1000\<rparr>]
           \<and> (stamps w' ! r)\<lparr>signatures := signatures (stamps w ! stampRef)\<rparr>
               = stamps w ! stampRef
           \<and> (signaturesOf (stamps w ! stampRef) = []
                \<longrightarrow> signaturesOf (stamps w' ! r)
                    = signaturesOf (stamps w ! stampRef)
                      @ [\<lparr>signer = signerOf signer1, algorithm = algorithmOf signer1,
                           sigValue = sigValue1, timestamp = dateNow w div 1000\<rparr>])"
  using assms
  by (simp add: sign_def allocate_def Let_def signaturesOf_def nth_append)

theorem sign_replaces_signatures_witness:
  "\<exists>w'. sign fixedStringify 0 exampleSigner (exampleWorld exampleStamp) = Inr (1, w')
       \<and> stamps w' ! 0 = exampleStamp
       \<and> signaturesOf (stamps w' ! 1)
           = [\<lparr>signer = \<lparr>scheme = ''eth-address'', subjectValue = ''0xEF01''\<rparr>,
                algorithm = ''secp256k1'', sigValue = ''0x3d'', timestamp = 1768478500\<rparr>]"
proof -
  have h1: "0 < length (stamps (exampleWorld exampleStamp))"
    by (simp add: exampleWorld_def)
  have h2: "fixedStringify (stamps (exampleWorld exampleStamp) ! 0) = Inr ''{}''"
    by (simp add: fixedStringify_def)
  have h3: "signWith exampleSigner ''{}'' = Inr ''0x3d''"
    by (simp add: exampleSigner_def)
  from sign_replaces_signatures [where stampRef = 0 and w = "exampleWorld exampleStamp"
      and stringify = fixedStringify and ?data1.0 = "''{}''" and ?signer1.0 = exampleSigner
      and ?sigValue1.0 = "''0x3d''", OF h1 h2 h3]
  obtain r w' where a: "sign fixedStringify 0 exampleSigner (exampleWorld exampleStamp) = Inr (r, w')"
    and b: "r = length (stamps (exampleWorld exampleStamp))"
    and c: "\<forall>a < length (stamps (exampleWorld exampleStamp)).
              stamps w' ! a = stamps (exampleWorld exampleStamp) ! a"
    and d: "signaturesOf (stamps w' ! r)
               = [\<lparr>signer = signerOf exampleSigner, algorithm = algorithmOf exampleSigner,
                    sigValue = ''0x3d'',
                    timestamp = dateNow (exampleWorld exampleStamp) div 1000\<rparr>]"
    by blast
  from b have r: "r = 1" by (simp add: exampleWorld_def)
  from c have "stamps w' ! 0 = exampleStamp" by (simp add: exampleWorld_def)
  moreover from d r have "signaturesOf (stamps w' ! 1)
           = [\<lparr>signer = \<lparr>scheme = ''eth-address'', subjectValue = ''0xEF01''\<rparr>,
                algorithm = ''secp256k1'', sigValue = ''0x3d'', timestamp = 1768478500\<rparr>]"
    by (simp add: exampleSigner_def exampleWorld_def)
  ultimately show ?thesis using a r by blast
qed

text \<open>
  C2 as stated fails on an argument that carries a signature: the returned sequence is
  the new record alone, not the prior sequence with the new record at its end.
\<close>

theorem sign_drops_prior_signatures:
  "signedSignatures (sign fixedStringify 0 exampleSigner (exampleWorld signedExample))
     = [\<lparr>signer = \<lparr>scheme = ''eth-address'', subjectValue = ''0xEF01''\<rparr>,
          algorithm = ''secp256k1'', sigValue = ''0x3d'', timestamp = 1768478500\<rparr>]
   \<and> signaturesOf (stamps (exampleWorld signedExample) ! 0)
       @ [\<lparr>signer = \<lparr>scheme = ''eth-address'', subjectValue = ''0xEF01''\<rparr>,
            algorithm = ''secp256k1'', sigValue = ''0x3d'', timestamp = 1768478500\<rparr>]
     = [exampleSignature ''0xABCD'',
        \<lparr>signer = \<lparr>scheme = ''eth-address'', subjectValue = ''0xEF01''\<rparr>,
         algorithm = ''secp256k1'', sigValue = ''0x3d'', timestamp = 1768478500\<rparr>]"
  by (simp add: signedSignatures_def sign_def allocate_def Let_def signaturesOf_def
        exampleWorld_def signedExample_def fixedStringify_def exampleSigner_def)

lemma hostGetTime_agree:
  assumes "\<forall>ms. readDate s = Some (WallClock ms) \<longrightarrow> localToUtc w1 ms = localToUtc w2 ms"
  shows "hostGetTime readDate w1 s = hostGetTime readDate w2 s"
  using assms by (simp add: hostGetTime_def split: option.splits DateReading.splits)

lemma normalizeThenBuild_getTime:
  assumes "hostGetTime readDate w1 (challenge_start_time e)
             = hostGetTime readDate w2 (challenge_start_time e)"
  shows "fst (normalizeThenBuild readDate e w1) = fst (normalizeThenBuild readDate e w2)"
  using assms
  by (simp add: normalizeThenBuild_def signalsFromChallengeResult_def
        createWitnessChainStamp_def Let_def split: option.splits)

text \<open>
  C9, amended. For every challenge result, the normalizer followed by the builder gives
  the same outcome, and every serializer the same text for the two stamps, in any two
  worlds (whatever the clock reads and whatever objects exist) whose time zones give the
  same instant to the start time, when its text is a date-time without an offset; so it
  does in any two worlds of one time zone, and in any two worlds at all when the text
  carries \<^verbatim>\<open>Z\<close> or an offset. The two leave the world as it was, and the builder's
  \<open>challengeResult\<close> error does not arise.
\<close>

theorem normalizeThenBuild_same_time_zone:
  "((\<forall>ms. readDate (challenge_start_time e) = Some (WallClock ms)
          \<longrightarrow> localToUtc w1 ms = localToUtc w2 ms)
      \<longrightarrow> fst (normalizeThenBuild readDate e w1) = fst (normalizeThenBuild readDate e w2)
          \<and> (\<forall>stringify. map_sum id stringify (fst (normalizeThenBuild readDate e w1))
                          = map_sum id stringify (fst (normalizeThenBuild readDate e w2))))
   \<and> (localToUtc w1 = localToUtc w2
      \<longrightarrow> fst (normalizeThenBuild readDate e w1) = fst (normalizeThenBuild readDate e w2))
   \<and> ((\<forall>ms. readDate (challenge_start_time e) \<noteq> Some (WallClock ms))
      \<longrightarrow> fst (normalizeThenBuild readDate e w1) = fst (normalizeThenBuild readDate e w2))
   \<and> snd (normalizeThenBuild readDate e w1) = w1
   \<and> fst (normalizeThenBuild readDate e w1)
       \<noteq> Inl (Thrown (Error ''WitnessChain signals must include challengeResult''))"
proof -
  have eq: "fst (normalizeThenBuild readDate e w1) = fst (normalizeThenBuild readDate e w2)"
    if "\<forall>ms. readDate (challenge_start_time e) = Some (WallClock ms)
          \<longrightarrow> localToUtc w1 ms = localToUtc w2 ms"
    using hostGetTime_agree [where readDate = readDate and s = "challenge_start_time e"
        and ?w1.0 = w1 and ?w2.0 = w2, OF that]
    by (rule normalizeThenBuild_getTime)
  have a: "(\<forall>ms. readDate (challenge_start_time e) = Some (WallClock ms)
          \<longrightarrow> localToUtc w1 ms = localToUtc w2 ms)
      \<longrightarrow> fst (normalizeThenBuild readDate e w1) = fst (normalizeThenBuild readDate e w2)
          \<and> (\<forall>stringify. map_sum id stringify (fst (normalizeThenBuild readDate e w1))
                          = map_sum id stringify (fst (normalizeThenBuild readDate e w2)))"
    using eq by simp
  have b: "localToUtc w1 = localToUtc w2
      \<longrightarrow> fst (normalizeThenBuild readDate e w1) = fst (normalizeThenBuild readDate e w2)"
    using eq by simp
  have c: "(\<forall>ms. readDate (challenge_start_time e) \<noteq> Some (WallClock ms))
      \<longrightarrow> fst (normalizeThenBuild readDate e w1) = fst (normalizeThenBuild readDate e w2)"
    using eq by simp
  have d: "snd (normalizeThenBuild readDate e w1) = w1"
    by (simp add: normalizeThenBuild_def split: sum.splits)
  have f: "fst (normalizeThenBuild readDate e w1)
       \<noteq> Inl (Thrown (Error ''WitnessChain signals must include challengeResult''))"
    by (simp add: normalizeThenBuild_def signalsFromChallengeResult_def
          createWitnessChainStamp_def Let_def split: option.splits)
  from a b c d f show ?thesis by (intro conjI)
qed

theorem normalizeThenBuild_same_time_zone_witness:
  "fst (normalizeThenBuild fixtureReader localFixture newYorkWorld)
     = fst (normalizeThenBuild fixtureReader localFixture newYorkLater)
   \<and> dateNow newYorkWorld \<noteq> dateNow newYorkLater
   \<and> stamps newYorkWorld \<noteq> stamps newYorkLater
   \<and> map_sum id temporalFootprint
       (fst (normalizeThenBuild fixtureReader localFixture newYorkWorld))
     = Inr (Some \<lparr>start = 1768496400, finish = 1768496410\<rparr>)
   \<and> fst (normalizeThenBuild fixtureReader fixtureResult (exampleWorld exampleStamp))
     = fst (normalizeThenBuild fixtureReader fixtureResult newYorkWorld)"
proof -
  have h: "\<forall>ms. fixtureReader (challenge_start_time localFixture) = Some (WallClock ms)
          \<longrightarrow> localToUtc newYorkWorld ms = localToUtc newYorkLater ms"
    by (simp add: newYorkLater_def)
  have z: "localToUtc newYorkWorld = localToUtc newYorkLater"
    by (simp add: newYorkLater_def)
  have w: "dateNow newYorkWorld \<noteq> dateNow newYorkLater
      \<and> stamps newYorkWorld \<noteq> stamps newYorkLater"
    by (simp add: newYorkLater_def newYorkWorld_def exampleWorld_def)
  have v: "map_sum id temporalFootprint
       (fst (normalizeThenBuild fixtureReader localFixture newYorkWorld))
     = Inr (Some \<lparr>start = 1768496400, finish = 1768496410\<rparr>)"
    by (simp add: normalizeThenBuild_def signalsFromChallengeResult_def
          createWitnessChainStamp_def hostGetTime_def fixtureReader_def localFixture_def
          fixtureResult_def newYorkWorld_def exampleWorld_def Let_def)
  have i: "\<forall>ms. fixtureReader (challenge_start_time fixtureResult) \<noteq> Some (WallClock ms)"
    by (simp add: fixtureReader_def fixtureResult_def)
  from normalizeThenBuild_same_time_zone [of fixtureReader localFixture newYorkWorld newYorkLater]
    h z
  have "fst (normalizeThenBuild fixtureReader localFixture newYorkWorld)
     = fst (normalizeThenBuild fixtureReader localFixture newYorkLater)"
    by blast
  moreover
  from normalizeThenBuild_same_time_zone [of fixtureReader fixtureResult
      "exampleWorld exampleStamp" newYorkWorld] i
  have "fst (normalizeThenBuild fixtureReader fixtureResult (exampleWorld exampleStamp))
     = fst (normalizeThenBuild fixtureReader fixtureResult newYorkWorld)"
    by blast
  ultimately show ?thesis using w v by (simp only:) simp
qed

text \<open>
  C9 as stated fails for a start time written without an offset: on a host in UTC and on
  a host in New York, with the same clock and the same objects, the builder gives the
  stamp of the same challenge result two time windows that are five hours apart.
\<close>

theorem normalizeThenBuild_time_zone:
  "map_sum id temporalFootprint
       (fst (normalizeThenBuild fixtureReader localFixture (exampleWorld exampleStamp)))
     = Inr (Some \<lparr>start = 1768478400, finish = 1768478410\<rparr>)
   \<and> map_sum id temporalFootprint
       (fst (normalizeThenBuild fixtureReader localFixture newYorkWorld))
     = Inr (Some \<lparr>start = 1768496400, finish = 1768496410\<rparr>)
   \<and> dateNow newYorkWorld = dateNow (exampleWorld exampleStamp)
   \<and> stamps newYorkWorld = stamps (exampleWorld exampleStamp)"
  by (simp add: normalizeThenBuild_def signalsFromChallengeResult_def
        createWitnessChainStamp_def hostGetTime_def fixtureReader_def localFixture_def
        fixtureResult_def newYorkWorld_def exampleWorld_def Let_def)

end
